theory Spec2Isabelle
  imports Main "HOL-Library.Sublist"
begin

section \<open>JavaScript values and strings\<close>

text \<open>
  The file \<^verbatim>\<open>src/index.js\<close> holds two variants of the command-line tool. Variant A is
  lines 1-203 (template validation by filesystem confinement, a fixed fetch coordinate);
  variant B is lines 204-414 (template validation by allow-list, project-name format
  check, writable-parent check, rollback after a failed fetch). Definitions carry the
  source's names with the suffix \<open>A\<close> or \<open>B\<close> of the variant they embed.

  A JavaScript string is modelled as a \<^typ>\<open>string\<close> whose characters are the code units
  below 256 (Latin-1); \<open>trim\<close> and \<open>toLowerCase\<close> are the ECMAScript functions on
  that range. The proofs below use of the two functions only that they leave a string
  over \<open>[a-zA-Z0-9_-]\<close> as it is, and that \<open>trim\<close> of the empty string is empty.
\<close>

datatype jsval =
    JUndefined
  | JNull
  | JBool bool
  | JNum int
  | JStr string
  | JArr "jsval list"
  | JObj "(string \<times> jsval) list"

text \<open>\<open>!v\<close> is \<open>\<not> truthy v\<close>. A JSON number is kept as an integer: only whether it is zero is
  ever looked at.\<close>

fun truthy :: "jsval \<Rightarrow> bool" where
  "truthy JUndefined = False"
| "truthy JNull = False"
| "truthy (JBool b) = b"
| "truthy (JNum n) = (n \<noteq> 0)"
| "truthy (JStr s) = (s \<noteq> [])"
| "truthy (JArr xs) = True"
| "truthy (JObj kvs) = True"

fun typeof :: "jsval \<Rightarrow> string" where
  "typeof JUndefined = ''undefined''"
| "typeof JNull = ''object''"
| "typeof (JBool b) = ''boolean''"
| "typeof (JNum n) = ''number''"
| "typeof (JStr s) = ''string''"
| "typeof (JArr xs) = ''object''"
| "typeof (JObj kvs) = ''object''"

fun str_of :: "jsval \<Rightarrow> string" where
  "str_of (JStr s) = s"
| "str_of v = []"

text \<open>White space of \<open>String.prototype.trim\<close> in the Latin-1 range: TAB, LF, VT, FF, CR,
  SPACE and NBSP.\<close>

definition isWhiteSpace :: "char \<Rightarrow> bool" where
  "isWhiteSpace c = (of_char c \<in> {9, 10, 11, 12, 13, 32, 160 :: nat})"

definition trim :: "string \<Rightarrow> string" where
  "trim s = rev (dropWhile isWhiteSpace (rev (dropWhile isWhiteSpace s)))"

text \<open>\<open>toLowerCase\<close>: A-Z and the Latin-1 capitals U+00C0..U+00DE (but not the
  multiplication sign U+00D7) move up by 32; every other code unit stays.\<close>

definition toLowerChar :: "char \<Rightarrow> char" where
  "toLowerChar c =
     (let n = (of_char c :: nat) in
      if (65 \<le> n \<and> n \<le> 90) \<or> (192 \<le> n \<and> n \<le> 222 \<and> n \<noteq> 215)
      then char_of (n + 32) else c)"

definition toLowerCase :: "string \<Rightarrow> string" where
  "toLowerCase s = map toLowerChar s"

definition startsWith :: "string \<Rightarrow> string \<Rightarrow> bool" where
  "startsWith s p = prefix p s"

section \<open>Name validation\<close>

definition AVAILABLE_TEMPLATES :: "string list" where
  "AVAILABLE_TEMPLATES = [''base'', ''redux'']"

text \<open>The class \<open>[a-z0-9-]\<close> and the test \<open>/^[a-z0-9-]+$/.test(name)\<close> (lines 27, 233).\<close>

definition template_class :: "char \<Rightarrow> bool" where
  "template_class c =
     (let n = (of_char c :: nat) in
      (97 \<le> n \<and> n \<le> 122) \<or> (48 \<le> n \<and> n \<le> 57) \<or> n = 45)"

definition template_re :: "string \<Rightarrow> bool" where
  "template_re s = (s \<noteq> [] \<and> list_all template_class s)"

text \<open>The class \<open>[a-zA-Z0-9-_]\<close> and the test \<open>/^[a-zA-Z0-9-_]+$/.test(name)\<close> (line 263):
  after the range \<open>0-9\<close> the hyphen and the underscore stand for themselves.\<close>

definition project_class :: "char \<Rightarrow> bool" where
  "project_class c =
     (let n = (of_char c :: nat) in
      (97 \<le> n \<and> n \<le> 122) \<or> (65 \<le> n \<and> n \<le> 90) \<or> (48 \<le> n \<and> n \<le> 57)
      \<or> n = 45 \<or> n = 95)"

definition project_re :: "string \<Rightarrow> bool" where
  "project_re s = (s \<noteq> [] \<and> list_all project_class s)"

text \<open>\<open>validateTemplate\<close> of variant B, lines 225-243.\<close>

definition validateTemplateB :: "jsval \<Rightarrow> string" where
  "validateTemplateB template =
     (if \<not> truthy template \<or> typeof template \<noteq> ''string'' then ''base''
      else
        let name = toLowerCase (trim (str_of template)) in
        if \<not> template_re name then ''base''
        else if name \<notin> set AVAILABLE_TEMPLATES then ''base''
        else name)"

text \<open>The \<open>validate\<close> callback of the project-name question: it answers \<open>true\<close>
  (\<open>Valid\<close>) or the message shown to the user. Variant A, lines 97-102; variant B,
  lines 255-272.\<close>

datatype validation = Valid | Invalid string

definition validateA :: "string \<Rightarrow> validation" where
  "validateA input =
     (if input = [] \<or> trim input = [] then Invalid ''Project name is required''
      else Valid)"

definition validateB :: "string \<Rightarrow> validation" where
  "validateB input =
     (if input = [] \<or> trim input = [] then Invalid ''Project name is required''
      else
        let name = trim input in
        if \<not> project_re name
        then Invalid ''Project name can only contain letters, numbers, hyphens, and underscores''
        else if length name > 50
        then Invalid ''Project name must be 50 characters or less''
        else Valid)"

section \<open>Paths (Node's \<open>path\<close> module on POSIX)\<close>

text \<open>A path is a string. \<open>split_slash\<close> cuts it at every \<open>/\<close>; \<open>norm_segs\<close> walks the
  pieces as \<open>path.resolve\<close> and \<open>path.normalize\<close> do for an absolute path: an empty
  piece and \<open>.\<close> are dropped, \<open>..\<close> drops the piece before it (and nothing at the
  root).\<close>

fun split_slash :: "string \<Rightarrow> string list" where
  "split_slash [] = [[]]"
| "split_slash (c # cs) =
     (if c = CHR ''/'' then [] # split_slash cs
      else (case split_slash cs of
              [] \<Rightarrow> [[c]]
            | w # ws \<Rightarrow> (c # w) # ws))"

fun norm_segs :: "string list \<Rightarrow> string list \<Rightarrow> string list" where
  "norm_segs acc [] = rev acc"
| "norm_segs acc (s # ss) =
     (if s = [] \<or> s = ''.'' then norm_segs acc ss
      else if s = ''..'' then norm_segs (tl acc) ss
      else norm_segs (s # acc) ss)"

definition segments :: "string \<Rightarrow> string list" where
  "segments p = norm_segs [] (split_slash p)"

fun join_slash :: "string list \<Rightarrow> string" where
  "join_slash [] = []"
| "join_slash [x] = x"
| "join_slash (x # y # ys) = x @ CHR ''/'' # join_slash (y # ys)"

definition render :: "string list \<Rightarrow> string" where
  "render segs = CHR ''/'' # join_slash segs"

definition isAbsolute :: "string \<Rightarrow> bool" where
  "isAbsolute p = (case p of [] \<Rightarrow> False | c # cs \<Rightarrow> c = CHR ''/'')"

text \<open>\<open>path.resolve(base, p)\<close> for an absolute \<open>base\<close> (the working directory,
  \<open>__dirname\<close>, or a path resolved before): an absolute \<open>p\<close> replaces \<open>base\<close>, a relative
  one is appended to it, and the result is normalised. The three-argument call
  \<open>path.resolve(__dirname, "..", x)\<close> is \<open>path_resolve (path_resolve __dirname ''..'') x\<close>.\<close>

definition path_resolve :: "string \<Rightarrow> string \<Rightarrow> string" where
  "path_resolve base p =
     (if isAbsolute p then render (segments p)
      else render (norm_segs [] (split_slash base @ split_slash p)))"

text \<open>\<open>path.join(base, p)\<close> and \<open>path.dirname(p)\<close> for an absolute \<open>base\<close> and an
  absolute, normalised \<open>p\<close>.\<close>

definition path_join :: "string \<Rightarrow> string \<Rightarrow> string" where
  "path_join base p = render (norm_segs [] (split_slash base @ split_slash p))"

definition path_dirname :: "string \<Rightarrow> string" where
  "path_dirname p = render (butlast (segments p))"

text \<open>\<open>path.relative(from, to)\<close> for absolute paths: the common leading pieces are
  dropped, every piece left of \<open>from\<close> becomes \<open>..\<close>, and the pieces left of \<open>to\<close>
  follow.\<close>

fun strip_common :: "string list \<Rightarrow> string list \<Rightarrow> string list \<times> string list" where
  "strip_common (x # xs) (y # ys) =
     (if x = y then strip_common xs ys else (x # xs, y # ys))"
| "strip_common xs ys = (xs, ys)"

definition path_relative :: "string \<Rightarrow> string \<Rightarrow> string" where
  "path_relative from to =
     (case strip_common (segments from) (segments to) of
        (f, t) \<Rightarrow> join_slash (replicate (length f) ''..'' @ t))"

section \<open>The filesystem\<close>

text \<open>The filesystem as the program observes it: \<open>fs.existsSync\<close>, \<open>fs.realpathSync\<close>
  (\<open>None\<close>: it throws), \<open>fs.statSync(p).isDirectory()\<close> (\<open>None\<close>: \<open>statSync\<close> throws),
  \<open>fs.readJsonSync\<close> (\<open>None\<close>: it throws, the file is missing or not JSON) and
  \<open>fs.access(p, W_OK)\<close> (\<open>False\<close>: the promise rejects).\<close>

record fsys =
  existsSync :: "string \<Rightarrow> bool"
  realpathSync :: "string \<Rightarrow> string option"
  isDirectory :: "string \<Rightarrow> bool option"
  readJsonSync :: "string \<Rightarrow> jsval option"
  accessW :: "string \<Rightarrow> bool"

section \<open>Template validation with confinement (variant A)\<close>

datatype message =
    LifecycleScripts string "string list"
  | DebugAnswers "string option" "string option"
  | TemplateNotValid jsval
  | Creating "string option" string
  | AlreadyExists "string option"
  | TemplateMissing string
  | DebugPaths string string
  | NotWritable string
  | SpinnerStart
  | SpinnerSucceed
  | SpinnerFail
  | CreatedSuccessfully "string option"
  | NextSteps "string option"
  | CleanedUp
  | CleanupWarning "string option"
  | ErrorObject string string
  | ErrorDetails string
  | DownloadHint
  | PromptNotRendered
  | SomethingWentWrong string

text \<open>\<open>tplPkg.scripts\<close>: a property read. JSON.parse keeps the last of repeated keys;
  a value that is not an object has no such property.\<close>

fun get_prop :: "jsval \<Rightarrow> string \<Rightarrow> jsval" where
  "get_prop (JObj kvs) k = (case map_of (rev kvs) k of None \<Rightarrow> JUndefined | Some v \<Rightarrow> v)"
| "get_prop v k = JUndefined"

text \<open>\<open>Object.prototype.hasOwnProperty.call(scripts, k)\<close>, for the five lifecycle keys \<open>k\<close>
  only: they are neither an index nor \<open>length\<close>, so an array, a string, a number and a
  boolean own none of them.\<close>

fun hasOwnProperty :: "jsval \<Rightarrow> string \<Rightarrow> bool" where
  "hasOwnProperty (JObj kvs) k = (k \<in> set (map fst kvs))"
| "hasOwnProperty v k = False"

definition lifecycleKeys :: "string list" where
  "lifecycleKeys = [''preinstall'', ''install'', ''postinstall'', ''prepublish'', ''prepare'']"

text \<open>Lines 55-75: what the scan of a parsed manifest prints.\<close>

definition lifecycle_scan :: "string \<Rightarrow> jsval \<Rightarrow> message list" where
  "lifecycle_scan name tplPkg =
     (if truthy tplPkg \<and> truthy (get_prop tplPkg ''scripts'') then
        let found = filter (hasOwnProperty (get_prop tplPkg ''scripts'')) lifecycleKeys in
        if found \<noteq> [] then [LifecycleScripts name found] else []
      else [])"

text \<open>Lines 30-79, the body of the \<open>try\<close>: it returns (\<open>Inr\<close>) the template name and
  what it printed, or throws (\<open>Inl\<close>) where \<open>realpathSync\<close> or \<open>statSync\<close> throws. The
  manifest is read inside a \<open>try\<close> of its own (lines 53-78), whose \<open>catch\<close> returns
  \<open>"base"\<close>.\<close>

datatype exn = Thrown string

definition try_confinement :: "fsys \<Rightarrow> string \<Rightarrow> string \<Rightarrow> exn + string \<times> message list" where
  "try_confinement fs dirname name =
     (let templatesRoot = path_resolve dirname ''..'';
          resolved = path_resolve templatesRoot (''template-'' @ name)
      in
      case realpathSync fs templatesRoot of
        None \<Rightarrow> Inl (Thrown ''realpathSync'')
      | Some realTemplatesRoot \<Rightarrow>
      (case realpathSync fs resolved of
        None \<Rightarrow> Inl (Thrown ''realpathSync'')
      | Some realResolved \<Rightarrow>
        let relative = path_relative realTemplatesRoot realResolved in
        if startsWith relative ''..'' \<or>
           (isAbsolute relative \<and> \<not> startsWith realResolved realTemplatesRoot)
        then Inr (''base'', [])
        else if \<not> existsSync fs realResolved then Inr (''base'', [])
        else
          (case isDirectory fs realResolved of
             None \<Rightarrow> Inl (Thrown ''statSync'')
           | Some d \<Rightarrow>
             if \<not> d then Inr (''base'', [])
             else
               let tplPkgPath = path_join realResolved ''package.json'' in
               if existsSync fs tplPkgPath then
                 (case readJsonSync fs tplPkgPath of
                    None \<Rightarrow> Inr (''base'', [])
                  | Some tplPkg \<Rightarrow> Inr (name, lifecycle_scan name tplPkg))
               else Inr (name, []))))"

text \<open>\<open>validateTemplate\<close> of variant A, lines 22-85, with the filesystem and
  \<open>__dirname\<close> as arguments. The \<open>catch\<close> of line 80 turns every exception of the body
  into \<open>"base"\<close>.\<close>

definition validateTemplateA :: "fsys \<Rightarrow> string \<Rightarrow> jsval \<Rightarrow> string \<times> message list" where
  "validateTemplateA fs dirname t =
     (if \<not> truthy t \<or> typeof t \<noteq> ''string'' then (''base'', [])
      else
        let name = toLowerCase (trim (str_of t)) in
        if \<not> template_re name then (''base'', [])
        else
          (case try_confinement fs dirname name of
             Inl err \<Rightarrow> (''base'', [])
           | Inr result \<Rightarrow> result))"

section \<open>Collaborators: prompt, fetch, removal\<close>

text \<open>A run is described by what the environment does: the working directory,
  \<open>__dirname\<close>, the filesystem at the start, whether the prompt can be rendered, what
  the user types at the project-name question (one entry per attempt) and picks at the
  template question, what \<open>degit(...).clone\<close> does to the filesystem and whether it
  fails, and whether \<open>fs.remove\<close> fails (\<open>Some\<close>: it rejects and leaves that
  filesystem; \<open>None\<close>: it succeeds).\<close>

datatype prompt_failure = TtyError | OtherError string

record degit_error =
  err_message :: string
  err_code :: string

record world =
  cwd :: string
  dirname :: string
  disk :: fsys
  prompt_fails :: "prompt_failure option"
  typed :: "string list"
  picked :: string
  clone :: "string \<Rightarrow> string \<Rightarrow> fsys \<Rightarrow> degit_error option \<times> fsys"
  remove_fails :: "string \<Rightarrow> fsys \<Rightarrow> fsys option"

text \<open>What a run does, in order: questions shown, validation messages shown at the
  prompt, lines printed, and the calls \<open>fs.existsSync\<close>, \<open>fs.access\<close>, \<open>clone\<close> and
  \<open>fs.remove\<close> of \<open>createProject\<close>.\<close>

datatype event =
    Ask string
  | Rejected string
  | Log message
  | ProbeExists string
  | ProbeAccess string
  | CallClone string string
  | CallRemove string

record outcome =
  trace :: "event list"
  exit_code :: nat
  disk_after :: fsys

definition prepend :: "event list \<Rightarrow> outcome \<Rightarrow> outcome" where
  "prepend es out = out\<lparr>trace := es @ trace out\<rparr>"

text \<open>A command-line value is a string or \<open>undefined\<close>.\<close>

fun to_js :: "string option \<Rightarrow> jsval" where
  "to_js None = JUndefined"
| "to_js (Some s) = JStr s"

text \<open>\<open>a || b\<close> on such values, and \<open>AVAILABLE_TEMPLATES.includes(template)\<close>.\<close>

definition or_else :: "string option \<Rightarrow> string option \<Rightarrow> string option" where
  "or_else a b = (if truthy (to_js a) then a else b)"

fun array_includes :: "string list \<Rightarrow> string option \<Rightarrow> bool" where
  "array_includes xs None = False"
| "array_includes xs (Some s) = (s \<in> set xs)"

text \<open>The input question is asked again until \<open>validate\<close> answers \<open>true\<close>; each refusal
  shows its message. When the user's entries run out the prompt is closed.\<close>

fun ask_input :: "(string \<Rightarrow> validation) \<Rightarrow> string list \<Rightarrow> event list \<times> string option" where
  "ask_input validate [] = ([], None)"
| "ask_input validate (x # xs) =
     (case validate x of
        Valid \<Rightarrow> ([], Some x)
      | Invalid m \<Rightarrow> (case ask_input validate xs of (es, r) \<Rightarrow> (Rejected m # es, r)))"

record answers =
  ans_projectName :: "string option"
  ans_template :: "string option"

text \<open>\<open>inquirer.prompt\<close> with the two questions of lines 91-112 and 249-282: the
  project name is asked when \<open>when1\<close> holds, the template when \<open>when2\<close> holds.\<close>

definition inquirer_prompt ::
  "world \<Rightarrow> (string \<Rightarrow> validation) \<Rightarrow> bool \<Rightarrow> bool \<Rightarrow> event list \<times> (prompt_failure + answers)" where
  "inquirer_prompt w validate when1 when2 =
     (case prompt_fails w of
        Some e \<Rightarrow> ([], Inl e)
      | None \<Rightarrow>
        let ask2 = (if when2 then [Ask ''template''] else []);
            pick = (if when2 then Some (picked w) else None)
        in
        if when1 then
          (case ask_input validate (typed w) of
             (es, None) \<Rightarrow> (Ask ''projectName'' # es, Inl (OtherError ''prompt closed''))
           | (es, Some n) \<Rightarrow>
               (Ask ''projectName'' # es @ ask2,
                Inr \<lparr>ans_projectName = Some n, ans_template = pick\<rparr>))
        else (ask2, Inr \<lparr>ans_projectName = None, ans_template = pick\<rparr>))"

text \<open>The call of lines 91-112 (variant A) and of lines 249-282 (variant B): the
  project name is asked when none came from the command line, the template when the
  option is missing or not in \<open>AVAILABLE_TEMPLATES\<close>.\<close>

definition promptA ::
  "world \<Rightarrow> string option \<Rightarrow> string option \<Rightarrow> event list \<times> (prompt_failure + answers)" where
  "promptA w projectName template =
     inquirer_prompt w validateA (\<not> truthy (to_js projectName))
       (\<not> truthy (to_js template) \<or> \<not> array_includes AVAILABLE_TEMPLATES template)"

definition promptB ::
  "world \<Rightarrow> string option \<Rightarrow> string option \<Rightarrow> event list \<times> (prompt_failure + answers)" where
  "promptB w projectName template =
     inquirer_prompt w validateB (\<not> truthy (to_js projectName))
       (\<not> truthy (to_js template) \<or> \<not> array_includes AVAILABLE_TEMPLATES template)"

text \<open>\<open>fs.remove(p)\<close> when it succeeds: \<open>p\<close> and everything beneath it are gone.\<close>

definition gone :: "string \<Rightarrow> string \<Rightarrow> bool" where
  "gone p q = (q = p \<or> startsWith q (p @ ''/''))"

definition rm_rf :: "string \<Rightarrow> fsys \<Rightarrow> fsys" where
  "rm_rf p fs =
     \<lparr>existsSync = (\<lambda>q. \<not> gone p q \<and> existsSync fs q),
      realpathSync = (\<lambda>q. if gone p q then None else realpathSync fs q),
      isDirectory = (\<lambda>q. if gone p q then None else isDirectory fs q),
      readJsonSync = (\<lambda>q. if gone p q then None else readJsonSync fs q),
      accessW = (\<lambda>q. \<not> gone p q \<and> accessW fs q)\<rparr>"

text \<open>The line printed by the \<open>catch\<close> of the prompt (lines 177-185 and 388-396).\<close>

fun catch_message :: "prompt_failure \<Rightarrow> message" where
  "catch_message TtyError = PromptNotRendered"
| "catch_message (OtherError m) = SomethingWentWrong m"

section \<open>\<open>createProject\<close>, variant B (lines 245-398)\<close>

text \<open>Lines 360-374: the clean-up after a failed fetch.\<close>

definition rollbackB :: "world \<Rightarrow> string \<Rightarrow> string \<Rightarrow> fsys \<Rightarrow> event list \<times> fsys" where
  "rollbackB w projectName projectPath fs1 =
     (if existsSync fs1 projectPath then
        (case remove_fails w projectPath fs1 of
           None \<Rightarrow>
             ([ProbeExists projectPath, CallRemove projectPath, Log CleanedUp],
              rm_rf projectPath fs1)
         | Some fs2 \<Rightarrow>
             ([ProbeExists projectPath, CallRemove projectPath,
               Log (CleanupWarning (Some projectName))], fs2))
      else ([ProbeExists projectPath], fs1))"

text \<open>Lines 309-387: the destination guard, the fetch and what follows it.\<close>

definition materializeB :: "world \<Rightarrow> string \<Rightarrow> string \<Rightarrow> outcome" where
  "materializeB w projectName template =
     (let fs = disk w;
          projectPath = path_resolve (cwd w) projectName
      in
      if existsSync fs projectPath then
        \<lparr>trace = [ProbeExists projectPath, Log (AlreadyExists (Some projectName))],
         exit_code = 1, disk_after = fs\<rparr>
      else
        let parentDir = path_dirname projectPath in
        if \<not> accessW fs parentDir then
          \<lparr>trace = [ProbeExists projectPath, ProbeAccess parentDir, Log (NotWritable parentDir)],
           exit_code = 1, disk_after = fs\<rparr>
        else
          let coordinate = ''fraanlol/template-react-'' @ template;
              pre = [ProbeExists projectPath, ProbeAccess parentDir, Log SpinnerStart,
                     CallClone coordinate projectPath]
          in
          case clone w coordinate projectPath fs of
            (None, fs1) \<Rightarrow>
              \<lparr>trace = pre @ [Log SpinnerSucceed, Log (CreatedSuccessfully (Some projectName)),
                              Log (NextSteps (Some projectName))],
               exit_code = 0, disk_after = fs1\<rparr>
          | (Some err, fs1) \<Rightarrow>
              (case rollbackB w projectName projectPath fs1 of
                 (es, fs2) \<Rightarrow>
                   \<lparr>trace = pre @ [Log SpinnerFail] @ es @ [Log (ErrorDetails (err_message err))]
                            @ (if err_code err = ''COULD_NOT_DOWNLOAD'' then [Log DownloadHint]
                               else []),
                    exit_code = 1, disk_after = fs2\<rparr>))"

text \<open>The whole of \<open>createProject\<close>. \<open>path.resolve\<close> throws a \<open>TypeError\<close> on
  \<open>undefined\<close>; the outer \<open>catch\<close> prints it and exits with 1.\<close>

definition createProjectB :: "world \<Rightarrow> string option \<Rightarrow> string option \<Rightarrow> outcome" where
  "createProjectB w projectName0 template0 =
     (case promptB w projectName0 template0 of
        (es, Inl e) \<Rightarrow>
          \<lparr>trace = es @ [Log (catch_message e)], exit_code = 1, disk_after = disk w\<rparr>
      | (es, Inr answers) \<Rightarrow>
          let projectName = or_else projectName0 (ans_projectName answers);
              template = or_else template0 (ans_template answers);
              finalTemplate = validateTemplateB (to_js template);
              es2 = es
                @ (if JStr finalTemplate \<noteq> to_js template
                   then [Log (TemplateNotValid (to_js template))] else [])
                @ [Log (Creating projectName finalTemplate)]
          in
          (case projectName of
             None \<Rightarrow>
               \<lparr>trace = es2 @ [Log (SomethingWentWrong ''ERR_INVALID_ARG_TYPE'')],
                exit_code = 1, disk_after = disk w\<rparr>
           | Some pn \<Rightarrow> prepend es2 (materializeB w pn finalTemplate)))"

section \<open>\<open>createProject\<close>, variant A (lines 87-186)\<close>

text \<open>Lines 137-175. The process ends with code 0 when nothing calls
  \<open>process.exit\<close>.\<close>

definition materializeA :: "world \<Rightarrow> string \<Rightarrow> string \<Rightarrow> outcome" where
  "materializeA w projectName template =
     (let fs = disk w;
          projectPath = path_resolve (cwd w) projectName
      in
      if existsSync fs projectPath then
        \<lparr>trace = [ProbeExists projectPath, Log (AlreadyExists (Some projectName))],
         exit_code = 1, disk_after = fs\<rparr>
      else
        let templatePath = path_resolve (path_resolve (dirname w) ''..'') (''template-'' @ template) in
        if \<not> existsSync fs templatePath then
          \<lparr>trace = [ProbeExists projectPath, ProbeExists templatePath, Log (TemplateMissing template)],
           exit_code = 1, disk_after = fs\<rparr>
        else
          let pre = [ProbeExists projectPath, ProbeExists templatePath,
                     Log (DebugPaths projectPath templatePath), Log SpinnerStart,
                     CallClone ''fraanlol/template-base'' projectPath]
          in
          case clone w ''fraanlol/template-base'' projectPath fs of
            (None, fs1) \<Rightarrow>
              \<lparr>trace = pre @ [Log SpinnerSucceed], exit_code = 0, disk_after = fs1\<rparr>
          | (Some err, fs1) \<Rightarrow>
              \<lparr>trace = pre @ [Log SpinnerFail, Log (ErrorObject (err_message err) (err_code err))],
               exit_code = 1, disk_after = fs1\<rparr>)"

text \<open>The whole of \<open>createProject\<close>: \<open>template\<close> stays the command-line option (the
  answers are printed, and only \<open>projectName\<close> is read from them); the \<open>catch\<close> of
  lines 177-185 prints and does not exit.\<close>

definition createProjectA :: "world \<Rightarrow> string option \<Rightarrow> string option \<Rightarrow> outcome" where
  "createProjectA w projectName0 template0 =
     (case promptA w projectName0 template0 of
        (es, Inl e) \<Rightarrow>
          \<lparr>trace = es @ [Log (catch_message e)], exit_code = 0, disk_after = disk w\<rparr>
      | (es, Inr answers) \<Rightarrow>
          let projectName = or_else projectName0 (ans_projectName answers);
              validated = validateTemplateA (disk w) (dirname w) (to_js template0);
              finalTemplate = fst validated;
              es2 = es
                @ [Log (DebugAnswers (ans_projectName answers) (ans_template answers))]
                @ map Log (snd validated)
                @ (if JStr finalTemplate \<noteq> to_js template0
                   then [Log (TemplateNotValid (to_js template0))] else [])
                @ [Log (Creating projectName finalTemplate)]
          in
          (case projectName of
             None \<Rightarrow>
               \<lparr>trace = es2 @ [Log (SomethingWentWrong ''ERR_INVALID_ARG_TYPE'')],
                exit_code = 0, disk_after = disk w\<rparr>
           | Some pn \<Rightarrow> prepend es2 (materializeA w pn finalTemplate)))"

section \<open>Notions the properties are stated with\<close>

text \<open>A clean path piece: not empty, not \<open>.\<close>, not \<open>..\<close>, no \<open>/\<close> in it.\<close>

definition clean :: "string \<Rightarrow> bool" where
  "clean x = (x \<noteq> [] \<and> x \<noteq> ''.'' \<and> x \<noteq> ''..'' \<and> CHR ''/'' \<notin> set x)"

text \<open>The input as \<open>validateTemplate\<close> checks it: trimmed and lower-cased.\<close>

definition normalized :: "jsval \<Rightarrow> string" where
  "normalized t = toLowerCase (trim (str_of t))"

text \<open>The candidate \<open>template-<name>\<close> under the templates root \<open>dir/..\<close> is
  confined when both real paths exist, the candidate's real path is the root's or lies
  beneath it, and it is an existing directory.\<close>

definition confined :: "fsys \<Rightarrow> string \<Rightarrow> string \<Rightarrow> bool" where
  "confined fs dir name =
     (let templatesRoot = path_resolve dir ''..'' in
      case realpathSync fs templatesRoot of
        None \<Rightarrow> False
      | Some realRoot \<Rightarrow>
        (case realpathSync fs (path_resolve templatesRoot (''template-'' @ name)) of
           None \<Rightarrow> False
         | Some realCandidate \<Rightarrow>
             prefix (segments realRoot) (segments realCandidate)
             \<and> existsSync fs realCandidate
             \<and> isDirectory fs realCandidate = Some True))"

text \<open>The checks of lines 33-79 pass for a name: both real paths exist, the relative
  path from the root's to the candidate's is not refused at lines 36-39, the candidate
  is an existing directory, and its manifest, if there is one, can be read.\<close>

definition admitted :: "fsys \<Rightarrow> string \<Rightarrow> string \<Rightarrow> bool" where
  "admitted fs dir name =
     (let templatesRoot = path_resolve dir ''..'' in
      case realpathSync fs templatesRoot of
        None \<Rightarrow> False
      | Some realRoot \<Rightarrow>
        (case realpathSync fs (path_resolve templatesRoot (''template-'' @ name)) of
           None \<Rightarrow> False
         | Some realCandidate \<Rightarrow>
             \<not> (startsWith (path_relative realRoot realCandidate) ''..''
                \<or> (isAbsolute (path_relative realRoot realCandidate)
                    \<and> \<not> startsWith realCandidate realRoot))
             \<and> existsSync fs realCandidate
             \<and> isDirectory fs realCandidate = Some True
             \<and> (existsSync fs (path_join realCandidate ''package.json'') \<longrightarrow>
                  readJsonSync fs (path_join realCandidate ''package.json'') \<noteq> None)))"

text \<open>A call of \<open>validateTemplate\<close> in a machine: the filesystem it can read and the
  lines printed so far. Variant A (lines 22-85) reads the filesystem and appends what it
  prints; the body of variant B (lines 225-243) calls neither \<open>fs\<close> nor \<open>console\<close>, so
  its call leaves the machine as it is. \<open>twice\<close> runs a call two times in a row, the
  second in the machine the first one left.\<close>

record machine =
  st_files :: fsys
  st_console :: "message list"

definition validateTemplateA_call :: "string \<Rightarrow> jsval \<Rightarrow> machine \<Rightarrow> string \<times> machine" where
  "validateTemplateA_call dir t m =
     (case validateTemplateA (st_files m) dir t of
        (name, printed) \<Rightarrow> (name, m\<lparr>st_console := st_console m @ printed\<rparr>))"

definition validateTemplateB_call :: "jsval \<Rightarrow> machine \<Rightarrow> string \<times> machine" where
  "validateTemplateB_call t m = (validateTemplateB t, m)"

definition twice :: "(machine \<Rightarrow> string \<times> machine) \<Rightarrow> machine \<Rightarrow> string \<times> string \<times> machine" where
  "twice f m = (case f m of (r1, m1) \<Rightarrow> (case f m1 of (r2, m2) \<Rightarrow> (r1, r2, m2)))"

text \<open>The project name a run settles on after the prompt (lines 115 and 284); \<open>None\<close>
  when the prompt failed.\<close>

definition settled_name ::
  "event list \<times> (prompt_failure + answers) \<Rightarrow> string option \<Rightarrow> string option" where
  "settled_name r projectName0 =
     (case snd r of
        Inl e \<Rightarrow> None
      | Inr a \<Rightarrow> or_else projectName0 (ans_projectName a))"

text \<open>The fetches of a run, its removals, and the templates it announced
  (\<open>Creating <name> with template: <template>\<close>).\<close>

fun clone_calls :: "event list \<Rightarrow> (string \<times> string) list" where
  "clone_calls [] = []"
| "clone_calls (CallClone c p # es) = (c, p) # clone_calls es"
| "clone_calls (e # es) = clone_calls es"

fun remove_calls :: "event list \<Rightarrow> string list" where
  "remove_calls [] = []"
| "remove_calls (CallRemove p # es) = p # remove_calls es"
| "remove_calls (e # es) = remove_calls es"

fun announced :: "event list \<Rightarrow> string list" where
  "announced [] = []"
| "announced (Log (Creating n t) # es) = t # announced es"
| "announced (e # es) = announced es"

text \<open>The prompt succeeded.\<close>

definition prompt_ok :: "event list \<times> (prompt_failure + answers) \<Rightarrow> bool" where
  "prompt_ok r = (case snd r of Inl e \<Rightarrow> False | Inr a \<Rightarrow> True)"

text \<open>What the prompt itself contributes to a trace, and the events that come before
  the announcement of the template: no fetch, no removal, no \<open>fs.access\<close>, and no
  line but the debug output, the lifecycle warning and the fallback warning.\<close>

fun is_prompt_event :: "event \<Rightarrow> bool" where
  "is_prompt_event (Ask q) = True"
| "is_prompt_event (Rejected m) = True"
| "is_prompt_event e = False"

definition silent :: "event list \<Rightarrow> bool" where
  "silent es = (clone_calls es = [] \<and> remove_calls es = [] \<and> announced es = []
     \<and> (\<forall>d. ProbeAccess d \<notin> set es)
     \<and> (\<forall>m. Log m \<in> set es \<longrightarrow>
           (\<exists>t. m = TemplateNotValid t) \<or> (\<exists>a b. m = DebugAnswers a b)
           \<or> (\<exists>n f. m = LifecycleScripts n f)))"

section \<open>Example filesystems and runs\<close>

text \<open>A filesystem from its directories, its symbolic links (with the real path each
  resolves to), its files (with the JSON in them, \<open>None\<close> when it does not parse) and
  the directories the process may write to.\<close>

definition fixture ::
  "string list \<Rightarrow> (string \<times> string) list \<Rightarrow> (string \<times> jsval option) list \<Rightarrow> string list \<Rightarrow> fsys" where
  "fixture dirs links files writable =
     \<lparr>existsSync = (\<lambda>q. q \<in> set dirs \<or> q \<in> set (map fst links)
                        \<or> q \<in> set (map fst files)),
      realpathSync = (\<lambda>q. case map_of links q of
                           Some target \<Rightarrow> Some target
                         | None \<Rightarrow> if q \<in> set dirs \<or> q \<in> set (map fst files)
                                   then Some q else None),
      isDirectory = (\<lambda>q. if q \<in> set dirs then Some True
                         else if q \<in> set (map fst files) then Some False
                         else (case map_of links q of
                                 Some target \<Rightarrow> Some (target \<in> set dirs)
                               | None \<Rightarrow> None)),
      readJsonSync = (\<lambda>q. case map_of files q of
                           Some (Some v) \<Rightarrow> Some v
                         | _ \<Rightarrow> None),
      accessW = (\<lambda>q. q \<in> set writable)\<rparr>"

definition fs_plain :: fsys where
  "fs_plain = fixture [''/pkgs'', ''/pkgs/cli'', ''/pkgs/template-base'', ''/pkgs/template-redux'',
                       ''/work''] [] [] [''/work'']"

definition fs_bare :: fsys where
  "fs_bare = fixture [''/pkgs'', ''/pkgs/cli'', ''/work''] [] [] [''/work'']"

definition fs_selflink :: fsys where
  "fs_selflink = fixture [''/pkgs'', ''/pkgs/cli'', ''/work''] [(''/pkgs/template-x'', ''/pkgs'')] []
                   [''/work'']"

definition fs_escape :: fsys where
  "fs_escape = fixture [''/pkgs'', ''/pkgs/cli'', ''/etc'', ''/work''] [(''/pkgs/template-evil'', ''/etc'')] []
                 [''/work'']"

definition fs_baselink :: fsys where
  "fs_baselink = fixture [''/pkgs'', ''/pkgs/cli'', ''/etc'', ''/work''] [(''/pkgs/template-base'', ''/etc'')] []
                   [''/work'']"

definition fs_broken :: fsys where
  "fs_broken = fixture [''/pkgs'', ''/pkgs/cli'', ''/pkgs/template-redux'', ''/work''] []
                 [(''/pkgs/template-redux/package.json'', None)] [''/work'']"

definition fs_manifest :: fsys where
  "fs_manifest = fixture [''/pkgs'', ''/pkgs/cli'', ''/pkgs/template-redux'', ''/work''] []
                   [(''/pkgs/template-redux/package.json'',
                     Some (JObj [(''name'', JStr ''template-redux''),
                                 (''scripts'', JObj [(''postinstall'', JStr ''node setup.js'')])]))]
                   [''/work'']"

definition fs_readonly :: fsys where
  "fs_readonly = fixture [''/pkgs'', ''/pkgs/cli'', ''/pkgs/template-base'', ''/pkgs/template-redux'',
                          ''/work''] [] [] []"

definition fs_taken :: fsys where
  "fs_taken = fixture [''/pkgs'', ''/pkgs/cli'', ''/pkgs/template-base'', ''/pkgs/template-redux'',
                       ''/work'', ''/work/my-app''] [] [] [''/work'']"

definition m_manifest :: machine where
  "m_manifest = \<lparr>st_files = fs_manifest, st_console = []\<rparr>"

text \<open>A directory appears at \<open>p\<close>.\<close>

definition mkdir :: "string \<Rightarrow> fsys \<Rightarrow> fsys" where
  "mkdir p fs =
     fs\<lparr>existsSync := (existsSync fs)(p := True),
        realpathSync := (realpathSync fs)(p := Some p),
        isDirectory := (isDirectory fs)(p := Some True)\<rparr>"

text \<open>A fetch that succeeds, and one that fails after it has created the destination.\<close>

definition clone_ok :: "string \<Rightarrow> string \<Rightarrow> fsys \<Rightarrow> degit_error option \<times> fsys" where
  "clone_ok c p fs = (None, mkdir p fs)"

definition clone_partial :: "string \<Rightarrow> string \<Rightarrow> fsys \<Rightarrow> degit_error option \<times> fsys" where
  "clone_partial c p fs =
     (Some \<lparr>err_message = ''could not download'', err_code = ''COULD_NOT_DOWNLOAD''\<rparr>,
      mkdir p fs)"

text \<open>A fetch that cannot write the destination and leaves the filesystem as it was.\<close>

definition clone_denied :: "string \<Rightarrow> string \<Rightarrow> fsys \<Rightarrow> degit_error option \<times> fsys" where
  "clone_denied c p fs =
     (Some \<lparr>err_message = ''EACCES: permission denied'', err_code = ''EACCES''\<rparr>, fs)"

text \<open>A run in \<open>/work\<close> of the tool installed in \<open>/pkgs/cli\<close>; the user would type
  \<open>my-app\<close> and pick \<open>base\<close>.\<close>

definition world_of ::
  "fsys \<Rightarrow> (string \<Rightarrow> string \<Rightarrow> fsys \<Rightarrow> degit_error option \<times> fsys) \<Rightarrow> bool \<Rightarrow> world" where
  "world_of fs fetch removal_fails =
     \<lparr>cwd = ''/work'', dirname = ''/pkgs/cli'', disk = fs, prompt_fails = None,
      typed = [''my-app''], picked = ''base'', clone = fetch,
      remove_fails = (\<lambda>p fs1. if removal_fails then Some fs1 else None)\<rparr>"

section \<open>Strings and paths\<close>

lemma template_class_not_space: "template_class c \<Longrightarrow> \<not> isWhiteSpace c"
  by (auto simp: template_class_def isWhiteSpace_def Let_def)

lemma template_class_lower: "template_class c \<Longrightarrow> toLowerChar c = c"
  by (auto simp: template_class_def toLowerChar_def Let_def)

lemma project_class_not_space: "project_class c \<Longrightarrow> \<not> isWhiteSpace c"
  by (auto simp: project_class_def isWhiteSpace_def Let_def)

lemma trim_no_space: "list_all (\<lambda>c. \<not> isWhiteSpace c) s \<Longrightarrow> trim s = s"
proof -
  assume a: "list_all (\<lambda>c. \<not> isWhiteSpace c) s"
  have d: "dropWhile isWhiteSpace xs = xs" if "list_all (\<lambda>c. \<not> isWhiteSpace c) xs" for xs
    using that by (cases xs) auto
  have "list_all (\<lambda>c. \<not> isWhiteSpace c) (rev s)"
    using a by (simp add: list_all_iff)
  then show ?thesis using a by (simp add: trim_def d)
qed

lemma template_re_normal: "template_re s \<Longrightarrow> toLowerCase (trim s) = s"
proof -
  assume a: "template_re s"
  then have all: "list_all template_class s" by (simp add: template_re_def)
  then have "list_all (\<lambda>c. \<not> isWhiteSpace c) s"
    by (auto simp: list_all_iff template_class_not_space)
  then have t: "trim s = s" by (rule trim_no_space)
  have "map toLowerChar s = s"
    using all by (induction s) (auto simp: template_class_lower)
  then show ?thesis by (simp add: t toLowerCase_def)
qed

lemma project_re_trim: "project_re s \<Longrightarrow> trim s = s"
  by (rule trim_no_space) (auto simp: project_re_def list_all_iff project_class_not_space)

lemma split_slash_no_slash: "x \<in> set (split_slash s) \<Longrightarrow> CHR ''/'' \<notin> set x"
  by (induction s arbitrary: x) (auto split: if_splits list.splits)

lemma split_slash_single: "CHR ''/'' \<notin> set s \<Longrightarrow> split_slash s = [s]"
  by (induction s) auto

lemma split_slash_append:
  "CHR ''/'' \<notin> set x \<Longrightarrow> split_slash (x @ CHR ''/'' # r) = x # split_slash r"
  by (induction x) auto

lemma split_join:
  "ys \<noteq> [] \<Longrightarrow> \<forall>y\<in>set ys. CHR ''/'' \<notin> set y \<Longrightarrow> split_slash (join_slash ys) = ys"
  by (induction ys rule: join_slash.induct) (auto simp: split_slash_single split_slash_append)

lemma norm_segs_append:
  "norm_segs acc (xs @ ys) = norm_segs (rev (norm_segs acc xs)) ys"
  by (induction acc xs rule: norm_segs.induct) auto

lemma norm_segs_clean_id: "\<forall>y\<in>set ys. clean y \<Longrightarrow> norm_segs acc ys = rev acc @ ys"
  by (induction ys arbitrary: acc) (auto simp: clean_def)

lemma norm_segs_clean:
  "\<forall>a\<in>set acc. clean a \<Longrightarrow> \<forall>x\<in>set xs. CHR ''/'' \<notin> set x \<Longrightarrow>
   \<forall>y\<in>set (norm_segs acc xs). clean y"
proof (induction acc xs rule: norm_segs.induct)
  case (1 acc)
  then show ?case by simp
next
  case (2 acc s ss)
  have tl: "\<forall>a\<in>set (tl acc). clean a" using 2(4) by (cases acc) auto
  show ?case
  proof (cases "s = [] \<or> s = ''.''")
    case True
    with 2 show ?thesis by simp
  next
    case False
    show ?thesis
    proof (cases "s = ''..''")
      case True
      with False 2(2)[OF False True tl] 2(5) show ?thesis by simp
    next
      case ndd: False
      have "clean s" using False ndd 2(5) by (simp add: clean_def)
      with False ndd 2(3)[OF False ndd] 2(4) 2(5) show ?thesis by simp
    qed
  qed
qed

lemma segments_clean: "\<forall>y\<in>set (segments p). clean y"
  unfolding segments_def by (rule norm_segs_clean) (auto dest: split_slash_no_slash)

lemma segments_render: "\<forall>y\<in>set ys. clean y \<Longrightarrow> segments (render ys) = ys"
proof (cases ys)
  case Nil
  then show ?thesis by (simp add: segments_def render_def)
next
  case (Cons a list)
  assume c: "\<forall>y\<in>set ys. clean y"
  then have "split_slash (join_slash ys) = ys"
    using Cons by (intro split_join) (auto simp: clean_def)
  then have "split_slash (render ys) = [] # ys" by (simp add: render_def)
  then show ?thesis using c by (simp add: segments_def norm_segs_clean_id)
qed

lemma strip_common_append: "strip_common xs (xs @ ys) = ([], ys)"
  by (induction xs) simp_all

lemma strip_common_not_prefix: "\<not> prefix f t \<Longrightarrow> fst (strip_common f t) \<noteq> []"
  by (induction f t rule: strip_common.induct) auto

lemma join_slash_prefix: "prefix x (join_slash (x # xs))"
  by (cases xs) auto

lemma template_re_clean: "template_re v \<Longrightarrow> clean (''template-'' @ v)"
proof -
  assume a: "template_re v"
  have "CHR ''/'' \<notin> set v"
  proof
    assume "CHR ''/'' \<in> set v"
    with a have "template_class CHR ''/''" by (auto simp: template_re_def list_all_iff)
    then show False by (simp add: template_class_def)
  qed
  then show ?thesis by (simp add: clean_def)
qed

lemma not_absolute_template: "\<not> isAbsolute (''template-'' @ v)"
  by (simp add: isAbsolute_def)

lemma path_resolve_root: "\<exists>R. path_resolve d ''..'' = render R \<and> (\<forall>y\<in>set R. clean y)"
proof -
  have "path_resolve d ''..'' = render (norm_segs [] (split_slash d @ split_slash ''..''))"
    by (simp add: path_resolve_def isAbsolute_def)
  moreover have "\<forall>y\<in>set (norm_segs [] (split_slash d @ split_slash ''..'')). clean y"
    by (rule norm_segs_clean) (auto dest: split_slash_no_slash)
  ultimately show ?thesis by blast
qed

lemma child_of_root:
  assumes "clean x" "\<not> isAbsolute x" "\<forall>y\<in>set R. clean y"
  shows "path_relative (render R) (path_resolve (render R) x) = x"
proof -
  from assms(1) have sx: "split_slash x = [x]" by (simp add: clean_def split_slash_single)
  have "norm_segs [] (split_slash (render R) @ [x]) = norm_segs (rev (segments (render R))) [x]"
    by (simp add: norm_segs_append segments_def)
  also have "\<dots> = R @ [x]"
    using assms(1,3) by (simp add: segments_render clean_def)
  finally have r: "path_resolve (render R) x = render (R @ [x])"
    using assms(2) by (simp add: path_resolve_def sx)
  have "segments (render (R @ [x])) = R @ [x]"
    using assms(1,3) by (intro segments_render) auto
  then show ?thesis
    using assms(3) by (simp add: path_relative_def r segments_render strip_common_append)
qed

text \<open>The candidate of a name that passes the character class is a child of the
  templates root: relative to the root it is the one piece \<open>template-<name>\<close>.\<close>

lemma candidate_inside:
  "template_re v \<Longrightarrow>
   path_relative (path_resolve d ''..'') (path_resolve (path_resolve d ''..'') (''template-'' @ v))
     = ''template-'' @ v"
  using path_resolve_root[of d] child_of_root[OF template_re_clean not_absolute_template]
  by auto

text \<open>A real path that is neither the root's nor beneath it has a relative path that
  starts with \<open>..\<close>.\<close>

lemma relative_escapes:
  assumes "\<not> prefix (segments a) (segments b)"
  shows "startsWith (path_relative a b) ''..''"
proof -
  obtain f t where st: "strip_common (segments a) (segments b) = (f, t)"
    by (cases "strip_common (segments a) (segments b)")
  with strip_common_not_prefix[OF assms] have "f \<noteq> []" by simp
  then obtain k where "replicate (length f) ''..'' = ''..'' # replicate k ''..''"
    by (cases f) auto
  then have "path_relative a b = join_slash (''..'' # (replicate k ''..'' @ t))"
    by (simp add: path_relative_def st)
  then show ?thesis
    using join_slash_prefix[of "''..''" "replicate k ''..'' @ t"] by (simp add: startsWith_def)
qed

section \<open>Template validation\<close>

lemma validateTemplateB_cases:
  "validateTemplateB t = ''base'' \<or>
   (validateTemplateB t = normalized t \<and> template_re (normalized t)
    \<and> normalized t \<in> set AVAILABLE_TEMPLATES)"
  by (simp add: validateTemplateB_def normalized_def Let_def)

lemma validateTemplateA_cases:
  "fst (validateTemplateA fs d t) = ''base'' \<or>
   (fst (validateTemplateA fs d t) = normalized t \<and> template_re (normalized t)
    \<and> truthy t \<and> typeof t = ''string'')"
  by (simp add: validateTemplateA_def try_confinement_def normalized_def Let_def split: option.splits)

lemma template_re_base: "template_re ''base''"
  by code_simp

lemma typeof_string: "typeof t = ''string'' \<Longrightarrow> \<exists>s. t = JStr s"
  by (cases t) auto

lemma validateTemplateB_not_listed:
  "normalized t \<notin> set AVAILABLE_TEMPLATES \<Longrightarrow> validateTemplateB t = ''base''"
  by (simp add: validateTemplateB_def normalized_def Let_def)

lemma validateTemplateB_listed: "validateTemplateB t \<in> set AVAILABLE_TEMPLATES"
  using validateTemplateB_cases[of t] by (auto simp: AVAILABLE_TEMPLATES_def)

lemma validateTemplateA_unconfined:
  assumes "\<not> confined fs d (normalized t)"
  shows "validateTemplateA fs d t = (''base'', [])"
proof (cases "truthy t \<and> typeof t = ''string'' \<and> template_re (normalized t)")
  case False
  then show ?thesis by (auto simp: validateTemplateA_def try_confinement_def normalized_def Let_def)
next
  case True
  let ?root = "path_resolve d ''..''"
  let ?cand = "path_resolve ?root (''template-'' @ normalized t)"
  show ?thesis
  proof (cases "realpathSync fs ?root")
    case None
    with True show ?thesis by (simp add: validateTemplateA_def try_confinement_def normalized_def Let_def)
  next
    case (Some rr)
    show ?thesis
    proof (cases "realpathSync fs ?cand")
      case None
      with True Some show ?thesis by (simp add: validateTemplateA_def try_confinement_def normalized_def Let_def)
    next
      case rc: (Some rc)
      from assms Some rc
      have "\<not> prefix (segments rr) (segments rc) \<or> \<not> existsSync fs rc
            \<or> isDirectory fs rc \<noteq> Some True"
        by (simp add: confined_def Let_def)
      then consider (esc) "startsWith (path_relative rr rc) ''..''"
        | (missing) "\<not> existsSync fs rc" | (nodir) "isDirectory fs rc \<noteq> Some True"
        using relative_escapes by blast
      then show ?thesis
      proof cases
        case esc
        with True Some rc show ?thesis
          by (simp add: validateTemplateA_def try_confinement_def normalized_def Let_def)
      next
        case missing
        with True Some rc show ?thesis
          by (simp add: validateTemplateA_def try_confinement_def normalized_def Let_def)
      next
        case nodir
        with True Some rc show ?thesis
          by (cases "isDirectory fs rc") (auto simp: validateTemplateA_def try_confinement_def normalized_def Let_def)
      qed
    qed
  qed
qed

text \<open>Validating again the normalised form of a name gives what validating the name
  gave.\<close>

lemma validateTemplateA_renormalize:
  assumes "template_re (normalized (JStr s))"
  shows "validateTemplateA fs d (JStr (normalized (JStr s))) = validateTemplateA fs d (JStr s)"
proof -
  let ?n = "toLowerCase (trim s)"
  from assms have r: "template_re ?n" by (simp add: normalized_def)
  then have fp: "toLowerCase (trim ?n) = ?n" by (rule template_re_normal)
  from r have ne: "?n \<noteq> []" by (simp add: template_re_def)
  have s_ne: "s \<noteq> []"
  proof
    assume "s = []"
    then have "?n = []" by (simp add: trim_def toLowerCase_def)
    with ne show False by simp
  qed
  show ?thesis
    by (simp add: validateTemplateA_def try_confinement_def normalized_def fp ne s_ne)
qed

lemma validateTemplateA_idem:
  "fst (validateTemplateA fs d (JStr (fst (validateTemplateA fs d t))))
     = fst (validateTemplateA fs d t)"
proof -
  consider (fallback) "fst (validateTemplateA fs d t) = ''base''"
    | (kept) "fst (validateTemplateA fs d t) = normalized t" "template_re (normalized t)"
        "typeof t = ''string''"
    using validateTemplateA_cases[of fs d t] by blast
  then show ?thesis
  proof cases
    case fallback
    have n: "normalized (JStr ''base'') = ''base''"
      using template_re_normal[OF template_re_base] by (simp add: normalized_def)
    from validateTemplateA_cases[of fs d "JStr ''base''"] fallback n show ?thesis by auto
  next
    case kept
    from kept(3) obtain s where t: "t = JStr s" using typeof_string by blast
    from kept(1,2) validateTemplateA_renormalize[of s fs d] t show ?thesis by simp
  qed
qed

lemma validateTemplateB_idem:
  "validateTemplateB (JStr (validateTemplateB t)) = validateTemplateB t"
proof -
  have b: "validateTemplateB (JStr ''base'') = ''base''" by code_simp
  have r: "validateTemplateB (JStr ''redux'') = ''redux''" by code_simp
  from validateTemplateB_cases[of t]
  have "validateTemplateB t = ''base'' \<or> validateTemplateB t = ''redux''"
    by (auto simp: AVAILABLE_TEMPLATES_def)
  with b r show ?thesis by auto
qed

text \<open>What each variant returns, in terms of the normalised input.\<close>

lemma admitted_confined: "admitted fs d name \<Longrightarrow> confined fs d name"
  using relative_escapes
  by (auto simp: admitted_def confined_def Let_def split: option.splits)

lemma template_re_listed: "name \<in> set AVAILABLE_TEMPLATES \<Longrightarrow> template_re name"
proof -
  have "template_re ''base''" "template_re ''redux''" by code_simp+
  then show "name \<in> set AVAILABLE_TEMPLATES \<Longrightarrow> template_re name"
    by (auto simp: AVAILABLE_TEMPLATES_def)
qed

lemma normalized_empty: "normalized (JStr []) = []"
  by (simp add: normalized_def trim_def toLowerCase_def)

lemma validateTemplateB_char:
  "validateTemplateB t =
     (if typeof t = ''string'' \<and> normalized t \<in> set AVAILABLE_TEMPLATES
      then normalized t else ''base'')"
proof (cases "typeof t = ''string''")
  case False
  then show ?thesis by (simp add: validateTemplateB_def)
next
  case True
  then obtain s where t: "t = JStr s" using typeof_string by blast
  show ?thesis
  proof (cases "normalized t \<in> set AVAILABLE_TEMPLATES")
    case False
    with True show ?thesis by (simp add: validateTemplateB_not_listed)
  next
    case listed: True
    then have r: "template_re (normalized t)" by (rule template_re_listed)
    then have "normalized t \<noteq> []" by (simp add: template_re_def)
    with t have "s \<noteq> []" using normalized_empty by auto
    with t listed r show ?thesis
      by (simp add: validateTemplateB_def normalized_def Let_def)
  qed
qed

lemma validateTemplateA_char:
  "validateTemplateA fs d t =
     (if typeof t = ''string'' \<and> template_re (normalized t) \<and> admitted fs d (normalized t)
      then validateTemplateA fs d t else (''base'', []))"
  "typeof t = ''string'' \<and> template_re (normalized t) \<and> admitted fs d (normalized t)
     \<Longrightarrow> fst (validateTemplateA fs d t) = normalized t"
proof -
  show "validateTemplateA fs d t =
     (if typeof t = ''string'' \<and> template_re (normalized t) \<and> admitted fs d (normalized t)
      then validateTemplateA fs d t else (''base'', []))"
    by (auto simp: validateTemplateA_def try_confinement_def admitted_def normalized_def Let_def
             split: option.splits)
next
  assume a: "typeof t = ''string'' \<and> template_re (normalized t) \<and> admitted fs d (normalized t)"
  then obtain s where t: "t = JStr s" using typeof_string by blast
  from a have "normalized t \<noteq> []" by (simp add: template_re_def)
  with t have "s \<noteq> []" using normalized_empty by auto
  with a t show "fst (validateTemplateA fs d t) = normalized t"
    by (auto simp: validateTemplateA_def try_confinement_def admitted_def normalized_def Let_def
             split: option.splits)
qed

lemma validateTemplateA_fst_char:
  "fst (validateTemplateA fs d t) =
     (if typeof t = ''string'' \<and> template_re (normalized t) \<and> admitted fs d (normalized t)
      then normalized t else ''base'')"
proof (cases "typeof t = ''string'' \<and> template_re (normalized t) \<and> admitted fs d (normalized t)")
  case True
  with validateTemplateA_char(2)[of t fs d] show ?thesis by simp
next
  case False
  with validateTemplateA_char(1)[of fs d t] have "validateTemplateA fs d t = (''base'', [])"
    by simp
  with False show ?thesis by auto
qed

lemma same_normal_form:
  assumes "typeof t = ''string''" "typeof t' = ''string''" "normalized t = normalized t'"
  shows "validateTemplateB t = validateTemplateB t'"
    and "validateTemplateA fs d t = validateTemplateA fs d t'"
proof -
  show "validateTemplateB t = validateTemplateB t'"
    using assms by (simp add: validateTemplateB_char)
  obtain s s' where t: "t = JStr s" "t' = JStr s'" using assms(1,2) typeof_string by blast
  show "validateTemplateA fs d t = validateTemplateA fs d t'"
  proof (cases "template_re (normalized t)")
    case False
    with assms(3) show ?thesis
      by (auto simp: validateTemplateA_def normalized_def Let_def)
  next
    case True
    then have "normalized t \<noteq> []" by (simp add: template_re_def)
    with t assms(3) have "s \<noteq> []" "s' \<noteq> []" using normalized_empty by auto
    with t assms(3) show ?thesis
      by (simp add: validateTemplateA_def normalized_def)
  qed
qed

text \<open>
  Claim C1, as amended. A raw template name whose trimmed, lower-cased form is not in
  the allow-list (variant B), or whose candidate \<open>template-<name>\<close> does not
  real-path-resolve to the templates root or beneath it, does not exist or is not a
  directory (variant A), resolves to the fallback \<open>base\<close>; the functions return a value
  for every input. The value returned is a member of the allow-list (variant B) and
  always names a single piece \<open>template-<value>\<close> directly under the templates root;
  and in variant A a value other than the fallback \<open>base\<close> has a candidate whose real
  path is the root's or beneath it, an existing directory. Nothing is said of where the
  candidate \<open>template-base\<close> of the fallback resolves.
\<close>

theorem validateTemplate_fallback:
  "(normalized t \<notin> set AVAILABLE_TEMPLATES \<longrightarrow> validateTemplateB t = ''base'')
   \<and> (\<not> confined fs d (normalized t) \<longrightarrow> validateTemplateA fs d t = (''base'', []))
   \<and> validateTemplateB t \<in> set AVAILABLE_TEMPLATES
   \<and> path_relative (path_resolve d ''..'')
        (path_resolve (path_resolve d ''..'') (''template-'' @ validateTemplateB t))
       = ''template-'' @ validateTemplateB t
   \<and> path_relative (path_resolve d ''..'')
        (path_resolve (path_resolve d ''..'') (''template-'' @ fst (validateTemplateA fs d t)))
       = ''template-'' @ fst (validateTemplateA fs d t)
   \<and> (fst (validateTemplateA fs d t) \<noteq> ''base'' \<longrightarrow>
        confined fs d (fst (validateTemplateA fs d t)))"
proof -
  have b: "template_re (validateTemplateB t)"
    using validateTemplateB_cases[of t] template_re_base by auto
  have a: "template_re (fst (validateTemplateA fs d t))"
    using validateTemplateA_cases[of fs d t] template_re_base by auto
  have c: "fst (validateTemplateA fs d t) \<noteq> ''base'' \<longrightarrow>
        confined fs d (fst (validateTemplateA fs d t))"
    using admitted_confined[of fs d "normalized t"]
    by (simp add: validateTemplateA_fst_char)
  show ?thesis
    using validateTemplateB_not_listed validateTemplateA_unconfined validateTemplateB_listed
      candidate_inside[OF a] candidate_inside[OF b] c
    by blast
qed

text \<open>The claim as written fails three times: \<open>REDUX\<close> is not a member of the
  allow-list and variant B returns \<open>redux\<close> for it; a candidate whose real path is the
  templates root itself (not a proper descendant) is accepted by variant A; and when
  \<open>template-base\<close> is a link to \<open>/etc\<close>, variant A answers \<open>base\<close> for the name
  \<open>evil\<close>, a value whose candidate resolves outside the templates root, and the run
  goes on to the fetch.\<close>

theorem validateTemplate_fallback_counterexample:
  "''REDUX'' \<notin> set AVAILABLE_TEMPLATES
   \<and> validateTemplateB (JStr ''REDUX'') = ''redux''
   \<and> realpathSync fs_selflink (path_resolve (path_resolve ''/pkgs/cli'' ''..'') ''template-x'')
       = realpathSync fs_selflink (path_resolve ''/pkgs/cli'' ''..'')
   \<and> validateTemplateA fs_selflink ''/pkgs/cli'' (JStr ''x'') = (''x'', [])
   \<and> validateTemplateA fs_baselink ''/pkgs/cli'' (JStr ''evil'') = (''base'', [])
   \<and> realpathSync fs_baselink (path_resolve (path_resolve ''/pkgs/cli'' ''..'') ''template-base'')
       = Some ''/etc''
   \<and> \<not> confined fs_baselink ''/pkgs/cli'' ''base''
   \<and> clone_calls (trace (createProjectA (world_of fs_baselink clone_ok False)
                           (Some ''my-app'') (Some ''evil'')))
       = [(''fraanlol/template-base'', ''/work/my-app'')]"
  by code_simp

text \<open>A name outside the allow-list and a candidate that links out of the root fall
  back; \<open>redux\<close> with a directory \<open>template-redux\<close> is kept and is confined.\<close>

theorem validateTemplate_fallback_witness:
  "normalized (JStr ''Vue'') \<notin> set AVAILABLE_TEMPLATES
   \<and> validateTemplateB (JStr ''Vue'') = ''base''
   \<and> \<not> confined fs_escape ''/pkgs/cli'' (normalized (JStr ''evil''))
   \<and> validateTemplateA fs_escape ''/pkgs/cli'' (JStr ''evil'') = (''base'', [])
   \<and> fst (validateTemplateA fs_plain ''/pkgs/cli'' (JStr ''redux'')) = ''redux''
   \<and> confined fs_plain ''/pkgs/cli'' ''redux''"
proof -
  have h1: "normalized (JStr ''Vue'') \<notin> set AVAILABLE_TEMPLATES" by code_simp
  have h2: "\<not> confined fs_escape ''/pkgs/cli'' (normalized (JStr ''evil''))" by code_simp
  have h3: "fst (validateTemplateA fs_plain ''/pkgs/cli'' (JStr ''redux'')) = ''redux''"
    by code_simp
  have h4: "''redux'' \<noteq> ''base''" by simp
  note a = validateTemplate_fallback[of "JStr ''Vue''" fs_escape "''/pkgs/cli''"]
  note b = validateTemplate_fallback[of "JStr ''evil''" fs_escape "''/pkgs/cli''"]
  note c = validateTemplate_fallback[of "JStr ''redux''" fs_plain "''/pkgs/cli''"]
  from a h1 have r1: "validateTemplateB (JStr ''Vue'') = ''base''" by blast
  from b h2 have r2: "validateTemplateA fs_escape ''/pkgs/cli'' (JStr ''evil'') = (''base'', [])"
    by blast
  from c h3 h4 have r3: "confined fs_plain ''/pkgs/cli'' ''redux''" by simp
  from h1 h2 h3 r1 r2 r3 show ?thesis by simp
qed

text \<open>
  Claim C6. \<open>validateTemplate\<close> returns a value for every input and never fails: an
  input that is not a string, or the empty string, yields \<open>base\<close>; a string is trimmed
  and lower-cased before it is checked: two strings with the same normalised form get
  the same answer, variant B returns the normalised form exactly when it is in the
  allow-list, and variant A returns it exactly when it passes the character class and
  the checks of lines 33-79; an input whose normalised form fails \<open>^[a-z0-9-]+$\<close>
  yields \<open>base\<close>; and the value returned always passes the character class. Both
  variants.
\<close>

theorem validateTemplate_total:
  "(typeof t \<noteq> ''string'' \<or> t = JStr [] \<longrightarrow>
      validateTemplateB t = ''base'' \<and> validateTemplateA fs d t = (''base'', []))
   \<and> (\<not> template_re (normalized t) \<longrightarrow>
      validateTemplateB t = ''base'' \<and> validateTemplateA fs d t = (''base'', []))
   \<and> validateTemplateB t \<in> {''base'', normalized t}
   \<and> fst (validateTemplateA fs d t) \<in> {''base'', normalized t}
   \<and> template_re (validateTemplateB t)
   \<and> template_re (fst (validateTemplateA fs d t))
   \<and> validateTemplateB t =
       (if typeof t = ''string'' \<and> normalized t \<in> set AVAILABLE_TEMPLATES
        then normalized t else ''base'')
   \<and> fst (validateTemplateA fs d t) =
       (if typeof t = ''string'' \<and> template_re (normalized t) \<and> admitted fs d (normalized t)
        then normalized t else ''base'')
   \<and> (typeof t = ''string'' \<and> typeof t' = ''string'' \<and> normalized t = normalized t' \<longrightarrow>
        validateTemplateB t = validateTemplateB t'
        \<and> validateTemplateA fs d t = validateTemplateA fs d t')"
proof -
  have 1: "typeof t \<noteq> ''string'' \<or> t = JStr [] \<longrightarrow>
      validateTemplateB t = ''base'' \<and> validateTemplateA fs d t = (''base'', [])"
    by (auto simp: validateTemplateB_def validateTemplateA_def)
  have 2: "\<not> template_re (normalized t) \<longrightarrow>
      validateTemplateB t = ''base'' \<and> validateTemplateA fs d t = (''base'', [])"
    by (auto simp: validateTemplateB_def validateTemplateA_def try_confinement_def normalized_def Let_def)
  have 3: "validateTemplateB t \<in> {''base'', normalized t}"
    using validateTemplateB_cases[of t] by auto
  have 4: "fst (validateTemplateA fs d t) \<in> {''base'', normalized t}"
    using validateTemplateA_cases[of fs d t] by auto
  have 5: "template_re (validateTemplateB t)"
    using validateTemplateB_cases[of t] template_re_base by auto
  have 6: "template_re (fst (validateTemplateA fs d t))"
    using validateTemplateA_cases[of fs d t] template_re_base by auto
  note 7 = validateTemplateB_char[of t]
  note 8 = validateTemplateA_fst_char[of fs d t]
  have 9: "typeof t = ''string'' \<and> typeof t' = ''string'' \<and> normalized t = normalized t' \<longrightarrow>
        validateTemplateB t = validateTemplateB t'
        \<and> validateTemplateA fs d t = validateTemplateA fs d t'"
    using same_normal_form by blast
  from 1 2 3 4 5 6 7 8 9 show ?thesis by blast
qed

text \<open>Rejected inputs (\<open>../../etc\<close>, \<open>undefined\<close>) and an accepted one: \<open>" Redux "\<close>
  is answered as \<open>redux\<close> is.\<close>

theorem validateTemplate_total_witness:
  "\<not> template_re (normalized (JStr ''../../etc''))
   \<and> validateTemplateB (JStr ''../../etc'') = ''base''
   \<and> validateTemplateA fs_plain ''/pkgs/cli'' (JStr ''../../etc'') = (''base'', [])
   \<and> validateTemplateB JUndefined = ''base''
   \<and> validateTemplateA fs_plain ''/pkgs/cli'' JUndefined = (''base'', [])
   \<and> normalized (JStr '' Redux '') = ''redux''
   \<and> admitted fs_plain ''/pkgs/cli'' ''redux''
   \<and> validateTemplateB (JStr '' Redux '') = ''redux''
   \<and> fst (validateTemplateA fs_plain ''/pkgs/cli'' (JStr '' Redux '')) = ''redux''
   \<and> validateTemplateA fs_plain ''/pkgs/cli'' (JStr '' Redux '')
       = validateTemplateA fs_plain ''/pkgs/cli'' (JStr ''redux'')"
proof -
  have h1: "\<not> template_re (normalized (JStr ''../../etc''))" by code_simp
  have h2: "typeof JUndefined \<noteq> ''string''" by simp
  have h3: "normalized (JStr '' Redux '') = ''redux''" by code_simp
  have h4: "admitted fs_plain ''/pkgs/cli'' ''redux''" by code_simp
  have h5: "''redux'' \<in> set AVAILABLE_TEMPLATES" by code_simp
  have h6: "template_re ''redux''" by code_simp
  have h7: "typeof (JStr '' Redux '') = ''string''" "typeof (JStr ''redux'') = ''string''" by simp_all
  have h8: "normalized (JStr ''redux'') = ''redux''" by code_simp
  note a = validateTemplate_total[of "JStr ''../../etc''" fs_plain "''/pkgs/cli''"]
  note b = validateTemplate_total[of JUndefined fs_plain "''/pkgs/cli''"]
  note c = validateTemplate_total[of "JStr '' Redux ''" fs_plain "''/pkgs/cli''" "JStr ''redux''"]
  have r1: "validateTemplateB (JStr ''../../etc'') = ''base''
     \<and> validateTemplateA fs_plain ''/pkgs/cli'' (JStr ''../../etc'') = (''base'', [])"
    using a h1 by blast
  have r2: "validateTemplateB JUndefined = ''base''
     \<and> validateTemplateA fs_plain ''/pkgs/cli'' JUndefined = (''base'', [])"
    using b h2 by blast
  have r3: "validateTemplateB (JStr '' Redux '') = ''redux''"
    using c h3 h5 h7 by simp
  have r4: "fst (validateTemplateA fs_plain ''/pkgs/cli'' (JStr '' Redux '')) = ''redux''"
    using c h3 h4 h6 h7 by simp
  have r5: "validateTemplateA fs_plain ''/pkgs/cli'' (JStr '' Redux '')
       = validateTemplateA fs_plain ''/pkgs/cli'' (JStr ''redux'')"
    using c h3 h7 h8 by simp
  from h1 h3 h4 r1 r2 r3 r4 r5 show ?thesis by blast
qed

text \<open>
  Claim C8. When the manifest \<open>package.json\<close> of the resolved template directory exists
  and cannot be read as JSON, variant A's \<open>validateTemplate\<close> gives up the requested
  template and returns the fallback \<open>base\<close>, printing nothing.
\<close>

theorem unparseable_manifest_falls_back:
  assumes "realpathSync fs
             (path_resolve (path_resolve d ''..'') (''template-'' @ normalized (JStr s)))
           = Some realResolved"
      and "existsSync fs (path_join realResolved ''package.json'')"
      and "readJsonSync fs (path_join realResolved ''package.json'') = None"
  shows "validateTemplateA fs d (JStr s) = (''base'', [])"
  using assms
  by (simp add: validateTemplateA_def try_confinement_def normalized_def Let_def split: option.splits)

text \<open>The template \<open>redux\<close> with a manifest that does not parse falls back; the same
  template with a manifest that parses is kept.\<close>

theorem unparseable_manifest_falls_back_witness:
  "existsSync fs_broken (path_join ''/pkgs/template-redux'' ''package.json'')
   \<and> readJsonSync fs_broken (path_join ''/pkgs/template-redux'' ''package.json'') = None
   \<and> validateTemplateA fs_broken ''/pkgs/cli'' (JStr ''redux'') = (''base'', [])
   \<and> fst (validateTemplateA fs_manifest ''/pkgs/cli'' (JStr ''redux'')) = ''redux''"
proof -
  have h1: "realpathSync fs_broken
      (path_resolve (path_resolve ''/pkgs/cli'' ''..'') (''template-'' @ normalized (JStr ''redux'')))
      = Some ''/pkgs/template-redux''" by code_simp
  have h2: "existsSync fs_broken (path_join ''/pkgs/template-redux'' ''package.json'')"
    by code_simp
  have h3: "readJsonSync fs_broken (path_join ''/pkgs/template-redux'' ''package.json'') = None"
    by code_simp
  have h4: "fst (validateTemplateA fs_manifest ''/pkgs/cli'' (JStr ''redux'')) = ''redux''"
    by code_simp
  from unparseable_manifest_falls_back[OF h1 h2 h3] h2 h3 h4 show ?thesis by blast
qed

text \<open>
  Claim C9, as amended. A call of variant B's \<open>validateTemplate\<close> has no side effect
  and reads no filesystem: run twice on the same raw name it gives the same result
  twice and leaves the machine as it was, and its result is the same in every machine.
  A call of variant A's reads the filesystem, never changes it, and appends to the
  console the lifecycle warning it prints, if any; run twice on the same raw name it gives
  the same result twice (the filesystem being the same for both runs), and its result is
  the same in two machines with the same filesystem.
\<close>

theorem validateTemplate_twice:
  "twice (validateTemplateB_call t) m = (validateTemplateB t, validateTemplateB t, m)
   \<and> fst (validateTemplateB_call t m) = fst (validateTemplateB_call t m')
   \<and> twice (validateTemplateA_call d t) m
       = (fst (validateTemplateA (st_files m) d t),
          fst (validateTemplateA (st_files m) d t),
          m\<lparr>st_console := st_console m @ snd (validateTemplateA (st_files m) d t)
                                        @ snd (validateTemplateA (st_files m) d t)\<rparr>)
   \<and> st_files (snd (validateTemplateA_call d t m)) = st_files m
   \<and> (st_files m = st_files m' \<longrightarrow>
        fst (validateTemplateA_call d t m) = fst (validateTemplateA_call d t m'))
   \<and> (snd (validateTemplateA (st_files m) d t) = []
      \<or> (\<exists>found. found \<noteq> [] \<and> set found \<subseteq> set lifecycleKeys
            \<and> snd (validateTemplateA (st_files m) d t)
                = [LifecycleScripts (normalized t) found]))"
proof -
  have 1: "twice (validateTemplateB_call t) m = (validateTemplateB t, validateTemplateB t, m)"
    by (simp add: twice_def validateTemplateB_call_def)
  have 2: "fst (validateTemplateB_call t m) = fst (validateTemplateB_call t m')"
    by (simp add: validateTemplateB_call_def)
  have 3: "twice (validateTemplateA_call d t) m
       = (fst (validateTemplateA (st_files m) d t),
          fst (validateTemplateA (st_files m) d t),
          m\<lparr>st_console := st_console m @ snd (validateTemplateA (st_files m) d t)
                                        @ snd (validateTemplateA (st_files m) d t)\<rparr>)"
    by (simp add: twice_def validateTemplateA_call_def split: prod.splits)
  have 4: "st_files (snd (validateTemplateA_call d t m)) = st_files m"
    by (simp add: validateTemplateA_call_def split: prod.splits)
  have 5: "st_files m = st_files m' \<longrightarrow>
        fst (validateTemplateA_call d t m) = fst (validateTemplateA_call d t m')"
    by (simp add: validateTemplateA_call_def split: prod.splits)
  have 6: "snd (validateTemplateA (st_files m) d t) = []
      \<or> (\<exists>found. found \<noteq> [] \<and> set found \<subseteq> set lifecycleKeys
            \<and> snd (validateTemplateA (st_files m) d t)
                = [LifecycleScripts (normalized t) found])"
    by (auto simp: validateTemplateA_def try_confinement_def lifecycle_scan_def normalized_def
          Let_def split: option.splits)
  from 1 2 3 4 5 6 show ?thesis by blast
qed

text \<open>The same raw name, validated by variant A in two machines that differ in their
  filesystem, gives two results; and a call of variant A can change the console.\<close>

theorem validateTemplate_twice_counterexample:
  "fst (validateTemplateA_call ''/pkgs/cli'' (JStr ''redux'') \<lparr>st_files = fs_plain, st_console = []\<rparr>)
     \<noteq> fst (validateTemplateA_call ''/pkgs/cli'' (JStr ''redux'') \<lparr>st_files = fs_bare, st_console = []\<rparr>)
   \<and> st_console (snd (validateTemplateA_call ''/pkgs/cli'' (JStr ''redux'') m_manifest))
     \<noteq> st_console m_manifest"
  by code_simp

theorem validateTemplate_twice_witness:
  "st_files m_manifest = st_files (m_manifest\<lparr>st_console := [SpinnerStart]\<rparr>)
   \<and> fst (validateTemplateA_call ''/pkgs/cli'' (JStr '' Redux '') m_manifest) = ''redux''
   \<and> fst (validateTemplateA_call ''/pkgs/cli'' (JStr '' Redux '')
            (m_manifest\<lparr>st_console := [SpinnerStart]\<rparr>)) = ''redux''
   \<and> fst (twice (validateTemplateA_call ''/pkgs/cli'' (JStr '' Redux '')) m_manifest) = ''redux''
   \<and> fst (snd (twice (validateTemplateA_call ''/pkgs/cli'' (JStr '' Redux '')) m_manifest)) = ''redux''
   \<and> st_console (snd (snd (twice (validateTemplateA_call ''/pkgs/cli'' (JStr '' Redux '')) m_manifest)))
       = [LifecycleScripts ''redux'' [''postinstall''], LifecycleScripts ''redux'' [''postinstall'']]
   \<and> fst (twice (validateTemplateB_call (JStr '' Redux '')) m_manifest) = ''redux''
   \<and> st_console (snd (snd (twice (validateTemplateB_call (JStr '' Redux '')) m_manifest))) = []"
proof -
  let ?m' = "m_manifest\<lparr>st_console := [SpinnerStart]\<rparr>"
  let ?t = "JStr '' Redux ''"
  have h: "st_files m_manifest = st_files ?m'" by simp
  have e1: "validateTemplateA (st_files m_manifest) ''/pkgs/cli'' ?t
      = (''redux'', [LifecycleScripts ''redux'' [''postinstall'']])" by code_simp
  have e2: "validateTemplateB ?t = ''redux''" by code_simp
  have e3: "fst (validateTemplateA_call ''/pkgs/cli'' ?t m_manifest) = ''redux''"
    by code_simp
  have e4: "st_console m_manifest = []" by (simp add: m_manifest_def)
  note th = validateTemplate_twice[of ?t m_manifest ?m' "''/pkgs/cli''"]
  from th have b: "twice (validateTemplateB_call ?t) m_manifest
      = (validateTemplateB ?t, validateTemplateB ?t, m_manifest)" by blast
  from th have a: "twice (validateTemplateA_call ''/pkgs/cli'' ?t) m_manifest
       = (fst (validateTemplateA (st_files m_manifest) ''/pkgs/cli'' ?t),
          fst (validateTemplateA (st_files m_manifest) ''/pkgs/cli'' ?t),
          m_manifest\<lparr>st_console := st_console m_manifest
              @ snd (validateTemplateA (st_files m_manifest) ''/pkgs/cli'' ?t)
              @ snd (validateTemplateA (st_files m_manifest) ''/pkgs/cli'' ?t)\<rparr>)" by blast
  from th h have "fst (validateTemplateA_call ''/pkgs/cli'' ?t m_manifest)
      = fst (validateTemplateA_call ''/pkgs/cli'' ?t ?m')" by blast
  with e3 have r: "fst (validateTemplateA_call ''/pkgs/cli'' ?t ?m') = ''redux''" by simp
  have a1: "fst (twice (validateTemplateA_call ''/pkgs/cli'' ?t) m_manifest) = ''redux''"
    by (simp add: a e1)
  have a2: "fst (snd (twice (validateTemplateA_call ''/pkgs/cli'' ?t) m_manifest)) = ''redux''"
    by (simp add: a e1)
  have a3: "st_console (snd (snd (twice (validateTemplateA_call ''/pkgs/cli'' ?t) m_manifest)))
       = [LifecycleScripts ''redux'' [''postinstall''], LifecycleScripts ''redux'' [''postinstall'']]"
    by (simp add: a e1 e4)
  have b1: "fst (twice (validateTemplateB_call ?t) m_manifest) = ''redux''"
    by (simp add: b e2)
  have b2: "st_console (snd (snd (twice (validateTemplateB_call ?t) m_manifest))) = []"
    by (simp add: b e4)
  from h e3 r a1 a2 a3 b1 b2 show ?thesis by blast
qed

section \<open>Runs of \<open>createProject\<close>\<close>

lemma clone_calls_append: "clone_calls (xs @ ys) = clone_calls xs @ clone_calls ys"
  by (induction xs rule: clone_calls.induct) auto

lemma remove_calls_append: "remove_calls (xs @ ys) = remove_calls xs @ remove_calls ys"
  by (induction xs rule: remove_calls.induct) auto

lemma announced_append: "announced (xs @ ys) = announced xs @ announced ys"
  by (induction xs rule: announced.induct) auto

lemma prompt_events_silent:
  "list_all is_prompt_event es \<Longrightarrow>
   clone_calls es = [] \<and> remove_calls es = [] \<and> announced es = []
   \<and> (\<forall>m. Log m \<notin> set es) \<and> (\<forall>d. ProbeAccess d \<notin> set es)"
proof (induction es)
  case Nil
  then show ?case by simp
next
  case (Cons e es)
  then show ?case by (cases e) auto
qed

lemma ask_input_events: "list_all is_prompt_event (fst (ask_input v xs))"
  by (induction xs) (auto split: validation.splits prod.splits)

lemma inquirer_prompt_events: "list_all is_prompt_event (fst (inquirer_prompt w v a b))"
  using ask_input_events[of v "typed w"]
  by (auto simp: inquirer_prompt_def Let_def split: option.splits prod.splits)

lemma printed_silent:
  "clone_calls (map Log ms) = [] \<and> remove_calls (map Log ms) = []
   \<and> (\<forall>d. ProbeAccess d \<notin> set (map Log ms))"
  by (induction ms) auto

lemma validateTemplateA_prints:
  "snd (validateTemplateA fs d t) = [] \<or>
   (\<exists>n f. snd (validateTemplateA fs d t) = [LifecycleScripts n f])"
  by (auto simp: validateTemplateA_def try_confinement_def lifecycle_scan_def Let_def split: option.splits)

lemma announced_printed: "announced (map Log (snd (validateTemplateA fs d t))) = []"
  using validateTemplateA_prints[of fs d t] by auto

lemma ask_input_valid: "ask_input v xs = (es, Some n) \<Longrightarrow> v n = Valid"
  by (induction xs arbitrary: es) (auto split: validation.splits prod.splits)


lemma silent_append: "silent xs \<Longrightarrow> silent ys \<Longrightarrow> silent (xs @ ys)"
  by (auto simp: silent_def clone_calls_append remove_calls_append announced_append)

lemma silent_prompt: "silent (fst (inquirer_prompt w v a b))"
  using prompt_events_silent[OF inquirer_prompt_events[of w v a b]]
  by (simp add: silent_def)

lemma silent_printed: "silent (map Log (snd (validateTemplateA fs d t)))"
  using validateTemplateA_prints[of fs d t] by (auto simp: silent_def)

lemma silent_warning: "silent (if c then [Log (TemplateNotValid t)] else [])"
  by (simp add: silent_def)

lemma silent_debug: "silent [Log (DebugAnswers a b)]"
  by (simp add: silent_def)

lemma prepend_simps:
  "trace (prepend es out) = es @ trace out"
  "exit_code (prepend es out) = exit_code out"
  "disk_after (prepend es out) = disk_after out"
  by (simp_all add: prepend_def)

lemma createProjectB_settled:
  assumes "settled_name (promptB w pn0 t0) pn0 = Some pn"
  shows "\<exists>es ft. createProjectB w pn0 t0
            = prepend (es @ [Log (Creating (Some pn) ft)]) (materializeB w pn ft)
          \<and> silent es \<and> ft \<in> set AVAILABLE_TEMPLATES"
proof -
  obtain es r where p: "promptB w pn0 t0 = (es, r)" by (cases "promptB w pn0 t0")
  with assms obtain a where r: "r = Inr a" and n: "or_else pn0 (ans_projectName a) = Some pn"
    by (cases r) (auto simp: settled_name_def)
  let ?t = "or_else t0 (ans_template a)"
  let ?ft = "validateTemplateB (to_js ?t)"
  let ?es = "es @ (if JStr ?ft \<noteq> to_js ?t then [Log (TemplateNotValid (to_js ?t))] else [])"
  have "silent es" using silent_prompt p by (metis fst_conv promptB_def)
  then have "silent ?es" by (intro silent_append silent_warning)
  moreover have "createProjectB w pn0 t0
      = prepend (?es @ [Log (Creating (Some pn) ?ft)]) (materializeB w pn ?ft)"
    by (simp add: createProjectB_def p r n Let_def)
  ultimately show ?thesis using validateTemplateB_listed by blast
qed

lemma createProjectA_settled:
  assumes "settled_name (promptA w pn0 t0) pn0 = Some pn"
  shows "\<exists>es. createProjectA w pn0 t0
            = prepend (es @ [Log (Creating (Some pn) (fst (validateTemplateA (disk w) (dirname w) (to_js t0))))])
                (materializeA w pn (fst (validateTemplateA (disk w) (dirname w) (to_js t0))))
          \<and> silent es"
proof -
  obtain es r where p: "promptA w pn0 t0 = (es, r)" by (cases "promptA w pn0 t0")
  with assms obtain a where r: "r = Inr a" and n: "or_else pn0 (ans_projectName a) = Some pn"
    by (cases r) (auto simp: settled_name_def)
  let ?v = "validateTemplateA (disk w) (dirname w) (to_js t0)"
  let ?es = "es @ [Log (DebugAnswers (ans_projectName a) (ans_template a))] @ map Log (snd ?v)
     @ (if JStr (fst ?v) \<noteq> to_js t0 then [Log (TemplateNotValid (to_js t0))] else [])"
  have "silent es" using silent_prompt p by (metis fst_conv promptA_def)
  then have "silent ?es" by (intro silent_append silent_warning silent_printed silent_debug)
  moreover have "createProjectA w pn0 t0
      = prepend (?es @ [Log (Creating (Some pn) (fst ?v))]) (materializeA w pn (fst ?v))"
    by (simp add: createProjectA_def p r n Let_def)
  ultimately show ?thesis by blast
qed


lemma materializeB_taken:
  "existsSync (disk w) (path_resolve (cwd w) pn) \<Longrightarrow>
   materializeB w pn t =
     \<lparr>trace = [ProbeExists (path_resolve (cwd w) pn), Log (AlreadyExists (Some pn))],
      exit_code = 1, disk_after = disk w\<rparr>"
  by (simp add: materializeB_def Let_def)

lemma materializeA_taken:
  "existsSync (disk w) (path_resolve (cwd w) pn) \<Longrightarrow>
   materializeA w pn t =
     \<lparr>trace = [ProbeExists (path_resolve (cwd w) pn), Log (AlreadyExists (Some pn))],
      exit_code = 1, disk_after = disk w\<rparr>"
  by (simp add: materializeA_def Let_def)

lemma materializeB_readonly:
  "\<not> existsSync (disk w) (path_resolve (cwd w) pn) \<Longrightarrow>
   \<not> accessW (disk w) (path_dirname (path_resolve (cwd w) pn)) \<Longrightarrow>
   materializeB w pn t =
     \<lparr>trace = [ProbeExists (path_resolve (cwd w) pn),
               ProbeAccess (path_dirname (path_resolve (cwd w) pn)),
               Log (NotWritable (path_dirname (path_resolve (cwd w) pn)))],
      exit_code = 1, disk_after = disk w\<rparr>"
  by (simp add: materializeB_def Let_def)

lemma materializeA_fetch:
  assumes "\<not> existsSync (disk w) (path_resolve (cwd w) pn)"
      and "existsSync (disk w) (path_resolve (path_resolve (dirname w) ''..'') (''template-'' @ t))"
      and "clone w ''fraanlol/template-base'' (path_resolve (cwd w) pn) (disk w) = (r, fs1)"
  shows "clone_calls (trace (materializeA w pn t))
           = [(''fraanlol/template-base'', path_resolve (cwd w) pn)]"
    and "remove_calls (trace (materializeA w pn t)) = []"
    and "disk_after (materializeA w pn t) = fs1"
    and "\<forall>d. ProbeAccess d \<notin> set (trace (materializeA w pn t))"
    and "\<forall>m. Log m \<in> set (trace (materializeA w pn t)) \<longrightarrow>
           m \<in> {DebugPaths (path_resolve (cwd w) pn)
                    (path_resolve (path_resolve (dirname w) ''..'') (''template-'' @ t)),
                 SpinnerStart, SpinnerSucceed, SpinnerFail}
           \<or> (\<exists>a b. m = ErrorObject a b)"
    and "exit_code (materializeA w pn t) = (case r of None \<Rightarrow> 0 | Some e \<Rightarrow> 1)"
  using assms by (auto simp: materializeA_def Let_def split: option.splits)

lemma materializeA_clone_calls:
  "clone_calls (trace (materializeA w pn t)) = [] \<or>
   clone_calls (trace (materializeA w pn t)) = [(''fraanlol/template-base'', path_resolve (cwd w) pn)]"
  by (auto simp: materializeA_def Let_def split: option.splits prod.splits)

lemma materializeB_clone_calls:
  "clone_calls (trace (materializeB w pn t)) = [] \<or>
   (clone_calls (trace (materializeB w pn t))
      = [(''fraanlol/template-react-'' @ t, path_resolve (cwd w) pn)]
    \<and> \<not> existsSync (disk w) (path_resolve (cwd w) pn)
    \<and> accessW (disk w) (path_dirname (path_resolve (cwd w) pn)))"
  by (auto simp: materializeB_def rollbackB_def Let_def clone_calls_append
           split: option.splits prod.splits)

lemma materialize_announced:
  "announced (trace (materializeB w pn t)) = []"
  "announced (trace (materializeA w pn t)) = []"
  by (auto simp: materializeB_def materializeA_def rollbackB_def Let_def announced_append
           split: option.splits prod.splits)

lemma materializeB_failed_fetch:
  assumes "\<not> existsSync (disk w) (path_resolve (cwd w) pn)"
      and "accessW (disk w) (path_dirname (path_resolve (cwd w) pn))"
      and "clone w (''fraanlol/template-react-'' @ t) (path_resolve (cwd w) pn) (disk w)
             = (Some err, fs1)"
  shows "exit_code (materializeB w pn t) = 1"
    and "Log (ErrorDetails (err_message err)) \<in> set (trace (materializeB w pn t))"
    and "\<not> existsSync (disk_after (materializeB w pn t)) (path_resolve (cwd w) pn)
         \<or> Log (CleanupWarning (Some pn)) \<in> set (trace (materializeB w pn t))"
    and "existsSync fs1 (path_resolve (cwd w) pn) \<longrightarrow>
           remove_calls (trace (materializeB w pn t)) = [path_resolve (cwd w) pn]"
  using assms
  by (auto simp: materializeB_def rollbackB_def rm_rf_def gone_def Let_def remove_calls_append
           split: option.splits)

lemma createProjectA_unsettled:
  "settled_name (promptA w pn0 t0) pn0 = None \<Longrightarrow>
   clone_calls (trace (createProjectA w pn0 t0)) = []"
proof -
  assume a: "settled_name (promptA w pn0 t0) pn0 = None"
  obtain es r where p: "promptA w pn0 t0 = (es, r)" by (cases "promptA w pn0 t0")
  have s: "silent es" using silent_prompt p by (metis fst_conv promptA_def)
  then have c: "clone_calls es = []" by (simp add: silent_def)
  show ?thesis
  proof (cases r)
    case (Inl e)
    with p c show ?thesis by (simp add: createProjectA_def clone_calls_append)
  next
    case (Inr an)
    with a p have n: "or_else pn0 (ans_projectName an) = None" by (simp add: settled_name_def)
    have "clone_calls (map Log (snd (validateTemplateA (disk w) (dirname w) (to_js t0)))) = []"
      using printed_silent by blast
    with Inr p c n show ?thesis
      by (simp add: createProjectA_def clone_calls_append Let_def)
  qed
qed

lemma picked_irrelevant:
  "fst (inquirer_prompt (w\<lparr>picked := p\<rparr>) v a b) = fst (inquirer_prompt w v a b)"
  "prompt_ok (inquirer_prompt (w\<lparr>picked := p\<rparr>) v a b) = prompt_ok (inquirer_prompt w v a b)"
  "settled_name (inquirer_prompt (w\<lparr>picked := p\<rparr>) v a b) n = settled_name (inquirer_prompt w v a b) n"
  by (auto simp: inquirer_prompt_def prompt_ok_def settled_name_def Let_def
           split: option.splits prod.splits)

lemma template_asked:
  assumes "prompt_ok (inquirer_prompt w v a True)"
  shows "Ask ''template'' \<in> set (fst (inquirer_prompt w v a True))"
  using assms
  by (auto simp: inquirer_prompt_def prompt_ok_def Let_def split: option.splits prod.splits)

lemma or_else_given: "s \<noteq> [] \<Longrightarrow> or_else (Some s) x = Some s"
  by (simp add: or_else_def)

lemma createProjectB_announced:
  assumes "promptB w pn0 t0 = (es, Inr a)"
  shows "announced (trace (createProjectB w pn0 t0))
           = [validateTemplateB (to_js (or_else t0 (ans_template a)))]"
    and "set es \<subseteq> set (trace (createProjectB w pn0 t0))"
proof -
  have "silent es" using silent_prompt assms by (metis fst_conv promptB_def)
  then have an: "announced es = []" by (simp add: silent_def)
  show "announced (trace (createProjectB w pn0 t0))
           = [validateTemplateB (to_js (or_else t0 (ans_template a)))]"
    using an
    by (cases "or_else pn0 (ans_projectName a)")
       (simp_all add: createProjectB_def assms Let_def announced_append prepend_simps
          materialize_announced)
  show "set es \<subseteq> set (trace (createProjectB w pn0 t0))"
    by (cases "or_else pn0 (ans_projectName a)")
       (auto simp: createProjectB_def assms Let_def prepend_simps)
qed

lemma createProjectA_announced:
  assumes "promptA w pn0 t0 = (es, Inr a)"
  shows "announced (trace (createProjectA w pn0 t0))
           = [fst (validateTemplateA (disk w) (dirname w) (to_js t0))]"
    and "set es \<subseteq> set (trace (createProjectA w pn0 t0))"
proof -
  have "silent es" using silent_prompt assms by (metis fst_conv promptA_def)
  then have an: "announced es = []" by (simp add: silent_def)
  show "announced (trace (createProjectA w pn0 t0))
           = [fst (validateTemplateA (disk w) (dirname w) (to_js t0))]"
    using an
    by (cases "or_else pn0 (ans_projectName a)")
       (simp_all add: createProjectA_def assms Let_def announced_append prepend_simps
          materialize_announced announced_printed)
  show "set es \<subseteq> set (trace (createProjectA w pn0 t0))"
    by (cases "or_else pn0 (ans_projectName a)")
       (auto simp: createProjectA_def assms Let_def prepend_simps)
qed

text \<open>Variant B, lines 357-387: after a failed fetch the run exits with 1, the fetch
  error's message is printed, and the destination does not exist afterwards unless the
  removal failed and the warning was printed.\<close>

lemma createProjectB_rollback:
  assumes "settled_name (promptB w pn0 t0) pn0 = Some pn"
      and "\<not> existsSync (disk w) (path_resolve (cwd w) pn)"
      and "accessW (disk w) (path_dirname (path_resolve (cwd w) pn))"
      and "announced (trace (createProjectB w pn0 t0)) = [ft]"
      and "clone w (''fraanlol/template-react-'' @ ft) (path_resolve (cwd w) pn) (disk w)
             = (Some err, fs1)"
  shows "exit_code (createProjectB w pn0 t0) = 1
       \<and> Log (ErrorDetails (err_message err)) \<in> set (trace (createProjectB w pn0 t0))
       \<and> (\<not> existsSync (disk_after (createProjectB w pn0 t0)) (path_resolve (cwd w) pn)
          \<or> Log (CleanupWarning (Some pn)) \<in> set (trace (createProjectB w pn0 t0)))
       \<and> (existsSync fs1 (path_resolve (cwd w) pn) \<longrightarrow>
            remove_calls (trace (createProjectB w pn0 t0)) = [path_resolve (cwd w) pn])"
proof -
  from createProjectB_settled[OF assms(1)] obtain es ft'
    where run: "createProjectB w pn0 t0
        = prepend (es @ [Log (Creating (Some pn) ft')]) (materializeB w pn ft')"
      and s: "silent es" by blast
  from s have an: "announced es = []" and rc: "remove_calls es = []" by (auto simp: silent_def)
  from assms(4) an have "ft' = ft"
    by (simp add: run prepend_simps announced_append materialize_announced)
  with run have run': "createProjectB w pn0 t0
        = prepend (es @ [Log (Creating (Some pn) ft)]) (materializeB w pn ft)" by simp
  note m = materializeB_failed_fetch[OF assms(2,3,5)]
  show ?thesis using m(1) m(2) m(3) m(4) rc
    by (auto simp: run' prepend_simps remove_calls_append)
qed

text \<open>Variant B, lines 309-332: an existing destination ends the run with the
  already-exists error before \<open>fs.access\<close> is called; a parent that is not writable
  ends it with the not-writable error; and a fetch happens only when both checks
  passed.\<close>

lemma createProjectB_guard:
  assumes "settled_name (promptB w pn0 t0) pn0 = Some pn"
  shows "(existsSync (disk w) (path_resolve (cwd w) pn) \<longrightarrow>
            exit_code (createProjectB w pn0 t0) = 1
          \<and> Log (AlreadyExists (Some pn)) \<in> set (trace (createProjectB w pn0 t0))
          \<and> (\<forall>d. ProbeAccess d \<notin> set (trace (createProjectB w pn0 t0)))
          \<and> clone_calls (trace (createProjectB w pn0 t0)) = [])
       \<and> (\<not> existsSync (disk w) (path_resolve (cwd w) pn)
          \<and> \<not> accessW (disk w) (path_dirname (path_resolve (cwd w) pn)) \<longrightarrow>
            exit_code (createProjectB w pn0 t0) = 1
          \<and> Log (NotWritable (path_dirname (path_resolve (cwd w) pn)))
               \<in> set (trace (createProjectB w pn0 t0))
          \<and> clone_calls (trace (createProjectB w pn0 t0)) = [])
       \<and> (clone_calls (trace (createProjectB w pn0 t0)) \<noteq> [] \<longrightarrow>
            \<not> existsSync (disk w) (path_resolve (cwd w) pn)
          \<and> accessW (disk w) (path_dirname (path_resolve (cwd w) pn)))"
proof -
  from createProjectB_settled[OF assms] obtain es ft
    where run: "createProjectB w pn0 t0
        = prepend (es @ [Log (Creating (Some pn) ft)]) (materializeB w pn ft)"
      and s: "silent es" by blast
  from s have cc: "clone_calls es = []" and pa: "\<forall>d. ProbeAccess d \<notin> set es"
    by (auto simp: silent_def)
  show ?thesis
    using cc pa materializeB_clone_calls[of w pn ft]
    by (auto simp: run prepend_simps clone_calls_append materializeB_taken materializeB_readonly)
qed

text \<open>Variant B, line 337: the coordinate of a fetch is the fixed namespace followed by
  the announced template, which is a member of the allow-list.\<close>

lemma createProjectB_coordinate:
  assumes "(c, p) \<in> set (clone_calls (trace (createProjectB w pn0 t0)))"
  shows "\<exists>t\<in>set AVAILABLE_TEMPLATES. c = ''fraanlol/template-react-'' @ t
           \<and> announced (trace (createProjectB w pn0 t0)) = [t]"
proof (cases "settled_name (promptB w pn0 t0) pn0")
  case None
  obtain es r where pr: "promptB w pn0 t0 = (es, r)" by (cases "promptB w pn0 t0")
  have "silent es" using silent_prompt pr by (metis fst_conv promptB_def)
  then have c: "clone_calls es = []" by (simp add: silent_def)
  have "clone_calls (trace (createProjectB w pn0 t0)) = []"
  proof (cases r)
    case (Inl e)
    with pr c show ?thesis by (simp add: createProjectB_def clone_calls_append)
  next
    case (Inr an)
    with None pr have n: "or_else pn0 (ans_projectName an) = None" by (simp add: settled_name_def)
    with Inr pr c show ?thesis
      by (simp add: createProjectB_def clone_calls_append Let_def)
  qed
  with assms show ?thesis by simp
next
  case (Some pn)
  from createProjectB_settled[OF Some] obtain es ft
    where run: "createProjectB w pn0 t0
        = prepend (es @ [Log (Creating (Some pn) ft)]) (materializeB w pn ft)"
      and s: "silent es" and ft: "ft \<in> set AVAILABLE_TEMPLATES" by blast
  from s have cc: "clone_calls es = []" and an: "announced es = []" by (auto simp: silent_def)
  from assms cc have "(c, p) \<in> set (clone_calls (trace (materializeB w pn ft)))"
    by (simp add: run prepend_simps clone_calls_append)
  with materializeB_clone_calls[of w pn ft] have "c = ''fraanlol/template-react-'' @ ft" by auto
  moreover have "announced (trace (createProjectB w pn0 t0)) = [ft]"
    using an by (simp add: run prepend_simps announced_append materialize_announced)
  ultimately show ?thesis using ft by blast
qed

lemma coordinateB_distinct:
  "t \<noteq> t' \<Longrightarrow> ''fraanlol/template-react-'' @ t \<noteq> ''fraanlol/template-react-'' @ t'"
  by simp

section \<open>The claims about runs\<close>

text \<open>
  Claim C3. In every run that reaches the destination guard (the prompt succeeded and
  the run settled on the project name \<open>pn\<close>) with the destination
  \<open>path.resolve(cwd, pn)\<close> already existing, the process exits with code 1, prints the
  already-exists error, never calls the fetch collaborator, and leaves the filesystem
  as it was. Both variants.
\<close>

theorem existing_destination_aborts:
  "(settled_name (promptB w pn0 t0) pn0 = Some pn
      \<and> existsSync (disk w) (path_resolve (cwd w) pn) \<longrightarrow>
        exit_code (createProjectB w pn0 t0) = 1
      \<and> clone_calls (trace (createProjectB w pn0 t0)) = []
      \<and> disk_after (createProjectB w pn0 t0) = disk w
      \<and> Log (AlreadyExists (Some pn)) \<in> set (trace (createProjectB w pn0 t0)))
   \<and> (settled_name (promptA w pn0 t0) pn0 = Some pn
      \<and> existsSync (disk w) (path_resolve (cwd w) pn) \<longrightarrow>
        exit_code (createProjectA w pn0 t0) = 1
      \<and> clone_calls (trace (createProjectA w pn0 t0)) = []
      \<and> disk_after (createProjectA w pn0 t0) = disk w
      \<and> Log (AlreadyExists (Some pn)) \<in> set (trace (createProjectA w pn0 t0)))"
proof (intro conjI impI)
  assume a: "settled_name (promptB w pn0 t0) pn0 = Some pn
      \<and> existsSync (disk w) (path_resolve (cwd w) pn)"
  then obtain es ft where run: "createProjectB w pn0 t0
        = prepend (es @ [Log (Creating (Some pn) ft)]) (materializeB w pn ft)"
      and s: "silent es" using createProjectB_settled by blast
  from a have m: "materializeB w pn ft =
     \<lparr>trace = [ProbeExists (path_resolve (cwd w) pn), Log (AlreadyExists (Some pn))],
      exit_code = 1, disk_after = disk w\<rparr>" by (simp add: materializeB_taken)
  from s have c: "clone_calls es = []" by (simp add: silent_def)
  show "exit_code (createProjectB w pn0 t0) = 1" by (simp add: run m prepend_simps)
  show "clone_calls (trace (createProjectB w pn0 t0)) = []"
    by (simp add: run m prepend_simps clone_calls_append c)
  show "disk_after (createProjectB w pn0 t0) = disk w" by (simp add: run m prepend_simps)
  show "Log (AlreadyExists (Some pn)) \<in> set (trace (createProjectB w pn0 t0))"
    by (simp add: run m prepend_simps)
next
  assume a: "settled_name (promptA w pn0 t0) pn0 = Some pn
      \<and> existsSync (disk w) (path_resolve (cwd w) pn)"
  let ?ft = "fst (validateTemplateA (disk w) (dirname w) (to_js t0))"
  from a obtain es where run: "createProjectA w pn0 t0
        = prepend (es @ [Log (Creating (Some pn) ?ft)]) (materializeA w pn ?ft)"
      and s: "silent es" using createProjectA_settled by blast
  from a have m: "materializeA w pn ?ft =
     \<lparr>trace = [ProbeExists (path_resolve (cwd w) pn), Log (AlreadyExists (Some pn))],
      exit_code = 1, disk_after = disk w\<rparr>" by (simp add: materializeA_taken)
  from s have c: "clone_calls es = []" by (simp add: silent_def)
  show "exit_code (createProjectA w pn0 t0) = 1" by (simp add: run m prepend_simps)
  show "clone_calls (trace (createProjectA w pn0 t0)) = []"
    by (simp add: run m prepend_simps clone_calls_append c)
  show "disk_after (createProjectA w pn0 t0) = disk w" by (simp add: run m prepend_simps)
  show "Log (AlreadyExists (Some pn)) \<in> set (trace (createProjectA w pn0 t0))"
    by (simp add: run m prepend_simps)
qed

theorem existing_destination_aborts_witness:
  "existsSync fs_taken (path_resolve ''/work'' ''my-app'')
   \<and> exit_code (createProjectB (world_of fs_taken clone_ok False) (Some ''my-app'') (Some ''base'')) = 1
   \<and> clone_calls (trace (createProjectB (world_of fs_taken clone_ok False) (Some ''my-app'') (Some ''base''))) = []
   \<and> exit_code (createProjectA (world_of fs_taken clone_ok False) (Some ''my-app'') (Some ''base'')) = 1
   \<and> clone_calls (trace (createProjectA (world_of fs_taken clone_ok False) (Some ''my-app'') (Some ''base''))) = []"
proof -
  let ?w = "world_of fs_taken clone_ok False"
  have h1: "settled_name (promptB ?w (Some ''my-app'') (Some ''base'')) (Some ''my-app'') = Some ''my-app''"
    by code_simp
  have h2: "settled_name (promptA ?w (Some ''my-app'') (Some ''base'')) (Some ''my-app'') = Some ''my-app''"
    by code_simp
  have h3: "existsSync (disk ?w) (path_resolve (cwd ?w) ''my-app'')" by code_simp
  have h4: "existsSync fs_taken (path_resolve ''/work'' ''my-app'')" by code_simp
  from h1 h2 h3 h4 existing_destination_aborts[of ?w "Some ''my-app''" "Some ''base''" "''my-app''"]
  show ?thesis by blast
qed

text \<open>
  Claim C2. After a failed fetch variant B removes the destination or warns that it
  must be removed by hand, reports the fetch error and exits with 1 (lemma
  \<open>createProjectB_rollback\<close>). Variant A (lines 171-175) does not: when the guard of
  variant A has passed and the fetch fails, the run exits with 1 and the filesystem is
  left exactly as the failed fetch left it, with no call of \<open>fs.remove\<close> and no warning
  about a manual removal.
\<close>

theorem createProjectA_no_rollback:
  assumes "settled_name (promptA w pn0 t0) pn0 = Some pn"
      and "\<not> existsSync (disk w) (path_resolve (cwd w) pn)"
      and "existsSync (disk w)
             (path_resolve (path_resolve (dirname w) ''..'')
                (''template-'' @ fst (validateTemplateA (disk w) (dirname w) (to_js t0))))"
      and "clone w ''fraanlol/template-base'' (path_resolve (cwd w) pn) (disk w) = (Some err, fs1)"
  shows "exit_code (createProjectA w pn0 t0) = 1
       \<and> disk_after (createProjectA w pn0 t0) = fs1
       \<and> remove_calls (trace (createProjectA w pn0 t0)) = []
       \<and> (\<forall>n. Log (CleanupWarning n) \<notin> set (trace (createProjectA w pn0 t0)))"
proof -
  let ?ft = "fst (validateTemplateA (disk w) (dirname w) (to_js t0))"
  from createProjectA_settled[OF assms(1)] obtain es
    where run: "createProjectA w pn0 t0
        = prepend (es @ [Log (Creating (Some pn) ?ft)]) (materializeA w pn ?ft)"
      and s: "silent es" by blast
  note m = materializeA_fetch[OF assms(2,3,4)]
  from s have r: "remove_calls es = []" and l: "\<forall>n. Log (CleanupWarning n) \<notin> set es"
    by (auto simp: silent_def)
  have 1: "exit_code (createProjectA w pn0 t0) = 1" using m(6) by (simp add: run prepend_simps)
  have 2: "disk_after (createProjectA w pn0 t0) = fs1" using m(3) by (simp add: run prepend_simps)
  have 3: "remove_calls (trace (createProjectA w pn0 t0)) = []"
    using m(2) r by (simp add: run prepend_simps remove_calls_append)
  have 4: "\<forall>n. Log (CleanupWarning n) \<notin> set (trace (createProjectA w pn0 t0))"
    using m(5) l by (auto simp: run prepend_simps)
  from 1 2 3 4 show ?thesis by blast
qed

text \<open>A fetch that fails after creating \<open>/work/my-app\<close>: the directory is still there
  after variant A and gone after variant B.\<close>

theorem createProjectA_no_rollback_witness:
  "exit_code (createProjectA (world_of fs_plain clone_partial False) (Some ''my-app'') (Some ''base'')) = 1
   \<and> existsSync (disk_after (createProjectA (world_of fs_plain clone_partial False)
                    (Some ''my-app'') (Some ''base''))) ''/work/my-app''
   \<and> remove_calls (trace (createProjectA (world_of fs_plain clone_partial False)
                    (Some ''my-app'') (Some ''base''))) = []
   \<and> \<not> existsSync (disk_after (createProjectB (world_of fs_plain clone_partial False)
                    (Some ''my-app'') (Some ''base''))) ''/work/my-app''"
proof -
  let ?w = "world_of fs_plain clone_partial False"
  have h1: "settled_name (promptA ?w (Some ''my-app'') (Some ''base'')) (Some ''my-app'') = Some ''my-app''"
    by code_simp
  have h2: "\<not> existsSync (disk ?w) (path_resolve (cwd ?w) ''my-app'')" by code_simp
  have h3: "existsSync (disk ?w)
             (path_resolve (path_resolve (dirname ?w) ''..'')
                (''template-'' @ fst (validateTemplateA (disk ?w) (dirname ?w) (to_js (Some ''base'')))))"
    by code_simp
  have h4: "clone ?w ''fraanlol/template-base'' (path_resolve (cwd ?w) ''my-app'') (disk ?w)
      = (Some \<lparr>err_message = ''could not download'', err_code = ''COULD_NOT_DOWNLOAD''\<rparr>,
         mkdir (path_resolve (cwd ?w) ''my-app'') (disk ?w))"
    by (simp add: world_of_def clone_partial_def)
  have h5: "existsSync (mkdir (path_resolve (cwd ?w) ''my-app'') (disk ?w)) ''/work/my-app''"
    by code_simp
  have h6: "\<not> existsSync (disk_after (createProjectB ?w (Some ''my-app'') (Some ''base''))) ''/work/my-app''"
    by code_simp
  from createProjectA_no_rollback[OF h1 h2 h3 h4] h5 h6 show ?thesis by simp
qed

text \<open>
  Claim C4. Variant B checks first that the destination does not exist and then that
  its parent directory is writable, each failure ending the run with its own error
  before any fetch (lemma \<open>createProjectB_guard\<close>). Variant A (lines 137-169) has the
  first check only: with a destination that does not exist, a template directory that
  does, and a parent directory that is not writable, it never calls \<open>fs.access\<close>,
  prints no not-writable error and starts the fetch.
\<close>

theorem createProjectA_no_writable_check:
  assumes "settled_name (promptA w pn0 t0) pn0 = Some pn"
      and "\<not> existsSync (disk w) (path_resolve (cwd w) pn)"
      and "existsSync (disk w)
             (path_resolve (path_resolve (dirname w) ''..'')
                (''template-'' @ fst (validateTemplateA (disk w) (dirname w) (to_js t0))))"
      and "\<not> accessW (disk w) (path_dirname (path_resolve (cwd w) pn))"
  shows "clone_calls (trace (createProjectA w pn0 t0))
           = [(''fraanlol/template-base'', path_resolve (cwd w) pn)]
       \<and> (\<forall>d. ProbeAccess d \<notin> set (trace (createProjectA w pn0 t0)))
       \<and> (\<forall>d. Log (NotWritable d) \<notin> set (trace (createProjectA w pn0 t0)))"
proof -
  let ?ft = "fst (validateTemplateA (disk w) (dirname w) (to_js t0))"
  from createProjectA_settled[OF assms(1)] obtain es
    where run: "createProjectA w pn0 t0
        = prepend (es @ [Log (Creating (Some pn) ?ft)]) (materializeA w pn ?ft)"
      and s: "silent es" by blast
  obtain r fs1 where c: "clone w ''fraanlol/template-base'' (path_resolve (cwd w) pn) (disk w) = (r, fs1)"
    by (cases "clone w ''fraanlol/template-base'' (path_resolve (cwd w) pn) (disk w)")
  note m = materializeA_fetch[OF assms(2,3) c]
  from s have cc: "clone_calls es = []" and pa: "\<forall>d. ProbeAccess d \<notin> set es"
    and l: "\<forall>d. Log (NotWritable d) \<notin> set es"
    by (auto simp: silent_def)
  have 1: "clone_calls (trace (createProjectA w pn0 t0))
           = [(''fraanlol/template-base'', path_resolve (cwd w) pn)]"
    using m(1) cc by (simp add: run prepend_simps clone_calls_append)
  have 2: "\<forall>d. ProbeAccess d \<notin> set (trace (createProjectA w pn0 t0))"
    using m(4) pa by (simp add: run prepend_simps)
  have 3: "\<forall>d. Log (NotWritable d) \<notin> set (trace (createProjectA w pn0 t0))"
    using m(5) l by (auto simp: run prepend_simps)
  from 1 2 3 show ?thesis by blast
qed

theorem createProjectA_no_writable_check_witness:
  "\<not> accessW fs_readonly ''/work''
   \<and> clone_calls (trace (createProjectA (world_of fs_readonly clone_denied False) (Some ''my-app'') (Some ''base'')))
       = [(''fraanlol/template-base'', ''/work/my-app'')]
   \<and> exit_code (createProjectA (world_of fs_readonly clone_denied False) (Some ''my-app'') (Some ''base'')) = 1
   \<and> clone_calls (trace (createProjectB (world_of fs_readonly clone_denied False) (Some ''my-app'') (Some ''base''))) = []"
proof -
  let ?w = "world_of fs_readonly clone_denied False"
  have h1: "settled_name (promptA ?w (Some ''my-app'') (Some ''base'')) (Some ''my-app'') = Some ''my-app''"
    by code_simp
  have h2: "\<not> existsSync (disk ?w) (path_resolve (cwd ?w) ''my-app'')" by code_simp
  have h3: "existsSync (disk ?w)
             (path_resolve (path_resolve (dirname ?w) ''..'')
                (''template-'' @ fst (validateTemplateA (disk ?w) (dirname ?w) (to_js (Some ''base'')))))"
    by code_simp
  have h4: "\<not> accessW (disk ?w) (path_dirname (path_resolve (cwd ?w) ''my-app''))" by code_simp
  have h5: "\<not> accessW fs_readonly ''/work''" by code_simp
  have h6: "path_resolve (cwd ?w) ''my-app'' = ''/work/my-app''" by code_simp
  have h7: "exit_code (createProjectA ?w (Some ''my-app'') (Some ''base'')) = 1" by code_simp
  have h8: "clone_calls (trace (createProjectB ?w (Some ''my-app'') (Some ''base''))) = []"
    by code_simp
  from createProjectA_no_writable_check[OF h1 h2 h3 h4] h5 h6 h7 h8 show ?thesis by simp
qed

text \<open>
  Claim C7. Variant B fetches \<open>fraanlol/template-react-<template>\<close>, a different
  coordinate for each resolved template (lemmas \<open>createProjectB_coordinate\<close> and
  \<open>coordinateB_distinct\<close>). Variant A
  (line 164) does not: every fetch of every run of variant A is from the one coordinate
  \<open>fraanlol/template-base\<close>, whatever template was resolved and announced.
\<close>

theorem createProjectA_fixed_coordinate:
  assumes "(c, p) \<in> set (clone_calls (trace (createProjectA w pn0 t0)))"
  shows "c = ''fraanlol/template-base''"
proof (cases "settled_name (promptA w pn0 t0) pn0")
  case None
  with assms createProjectA_unsettled show ?thesis by fastforce
next
  case (Some pn)
  from createProjectA_settled[OF Some] obtain es
    where run: "createProjectA w pn0 t0
        = prepend (es @ [Log (Creating (Some pn) (fst (validateTemplateA (disk w) (dirname w) (to_js t0))))])
            (materializeA w pn (fst (validateTemplateA (disk w) (dirname w) (to_js t0))))"
      and s: "silent es" by blast
  from s have "clone_calls es = []" by (simp add: silent_def)
  with run assms
  have "(c, p) \<in> set (clone_calls (trace (materializeA w pn (fst (validateTemplateA (disk w) (dirname w) (to_js t0))))))"
    by (simp add: prepend_simps clone_calls_append)
  with materializeA_clone_calls[of w pn "fst (validateTemplateA (disk w) (dirname w) (to_js t0))"]
  show ?thesis by auto
qed

text \<open>With the option \<open>redux\<close> variant A announces \<open>redux\<close> and fetches
  \<open>fraanlol/template-base\<close>; variant B fetches \<open>fraanlol/template-react-redux\<close>.\<close>

theorem createProjectA_fixed_coordinate_witness:
  "(''fraanlol/template-base'', ''/work/my-app'')
      \<in> set (clone_calls (trace (createProjectA (world_of fs_plain clone_ok False) (Some ''my-app'') (Some ''redux''))))
   \<and> announced (trace (createProjectA (world_of fs_plain clone_ok False) (Some ''my-app'') (Some ''redux'')))
       = [''redux'']
   \<and> clone_calls (trace (createProjectB (world_of fs_plain clone_ok False) (Some ''my-app'') (Some ''redux'')))
       = [(''fraanlol/template-react-redux'', ''/work/my-app'')]"
proof -
  let ?w = "world_of fs_plain clone_ok False"
  have m: "(''fraanlol/template-base'', ''/work/my-app'')
      \<in> set (clone_calls (trace (createProjectA ?w (Some ''my-app'') (Some ''redux''))))"
    by code_simp
  note c = createProjectA_fixed_coordinate[OF m]
  have a: "announced (trace (createProjectA ?w (Some ''my-app'') (Some ''redux''))) = [''redux'']"
    by code_simp
  have b: "clone_calls (trace (createProjectB ?w (Some ''my-app'') (Some ''redux'')))
       = [(''fraanlol/template-react-redux'', ''/work/my-app'')]"
    by code_simp
  from m c a b show ?thesis by simp
qed

text \<open>
  Claim C10, as amended. When the \<open>--template\<close> option is a non-empty string that is not
  in the allow-list and the prompt succeeds, the template question is shown, and
  whatever the user picks there the template the run announces is
  \<open>validateTemplate(option)\<close>: in variant B the fallback \<open>base\<close> unless the trimmed,
  lower-cased option is \<open>redux\<close>; in variant A whatever the confinement check gives
  for the option.
\<close>

theorem option_overrides_prompt:
  assumes "s \<noteq> []" and "s \<notin> set AVAILABLE_TEMPLATES"
  shows "(prompt_ok (promptB w pn0 (Some s)) \<longrightarrow>
            Ask ''template'' \<in> set (trace (createProjectB (w\<lparr>picked := p\<rparr>) pn0 (Some s)))
          \<and> announced (trace (createProjectB (w\<lparr>picked := p\<rparr>) pn0 (Some s)))
              = [validateTemplateB (JStr s)])
       \<and> (prompt_ok (promptA w pn0 (Some s)) \<longrightarrow>
            Ask ''template'' \<in> set (trace (createProjectA (w\<lparr>picked := p\<rparr>) pn0 (Some s)))
          \<and> announced (trace (createProjectA (w\<lparr>picked := p\<rparr>) pn0 (Some s)))
              = [fst (validateTemplateA (disk w) (dirname w) (JStr s))])
       \<and> validateTemplateB (JStr s)
           = (if normalized (JStr s) = ''redux'' then ''redux'' else ''base'')"
proof (intro conjI impI)
  let ?w = "w\<lparr>picked := p\<rparr>"
  assume ok: "prompt_ok (promptB w pn0 (Some s))"
  from assms have when2: "(\<not> truthy (to_js (Some s)) \<or> \<not> array_includes AVAILABLE_TEMPLATES (Some s)) = True"
    by simp
  from ok have ok': "prompt_ok (promptB ?w pn0 (Some s))"
    by (simp add: promptB_def picked_irrelevant)
  then obtain es a where pr: "promptB ?w pn0 (Some s) = (es, Inr a)"
    by (cases "promptB ?w pn0 (Some s)") (auto simp: prompt_ok_def split: sum.splits)
  from ok' have "Ask ''template'' \<in> set (fst (promptB ?w pn0 (Some s)))"
    unfolding promptB_def when2 by (rule template_asked)
  with pr createProjectB_announced(2)[OF pr]
  show "Ask ''template'' \<in> set (trace (createProjectB ?w pn0 (Some s)))" by auto
  show "announced (trace (createProjectB ?w pn0 (Some s))) = [validateTemplateB (JStr s)]"
    using createProjectB_announced(1)[OF pr] assms(1) by (simp add: or_else_given)
next
  let ?w = "w\<lparr>picked := p\<rparr>"
  assume ok: "prompt_ok (promptA w pn0 (Some s))"
  from assms have when2: "(\<not> truthy (to_js (Some s)) \<or> \<not> array_includes AVAILABLE_TEMPLATES (Some s)) = True"
    by simp
  from ok have ok': "prompt_ok (promptA ?w pn0 (Some s))"
    by (simp add: promptA_def picked_irrelevant)
  then obtain es a where pr: "promptA ?w pn0 (Some s) = (es, Inr a)"
    by (cases "promptA ?w pn0 (Some s)") (auto simp: prompt_ok_def split: sum.splits)
  from ok' have "Ask ''template'' \<in> set (fst (promptA ?w pn0 (Some s)))"
    unfolding promptA_def when2 by (rule template_asked)
  with pr createProjectA_announced(2)[OF pr]
  show "Ask ''template'' \<in> set (trace (createProjectA ?w pn0 (Some s)))" by auto
  show "announced (trace (createProjectA ?w pn0 (Some s)))
      = [fst (validateTemplateA (disk w) (dirname w) (JStr s))]"
    using createProjectA_announced(1)[OF pr] by simp
next
  have r: "template_re ''redux''" by code_simp
  show "validateTemplateB (JStr s)
      = (if normalized (JStr s) = ''redux'' then ''redux'' else ''base'')"
    using assms(1) r
    by (auto simp: validateTemplateB_def normalized_def Let_def AVAILABLE_TEMPLATES_def)
qed

text \<open>The option \<open>REDUX\<close> is not in the allow-list, the template question is shown,
  the user picks \<open>base\<close>, and variant B goes on with \<open>redux\<close>, not with the
  fallback.\<close>

theorem option_overrides_prompt_counterexample:
  "''REDUX'' \<notin> set AVAILABLE_TEMPLATES
   \<and> picked (world_of fs_plain clone_ok False) = ''base''
   \<and> Ask ''template'' \<in> set (trace (createProjectB (world_of fs_plain clone_ok False)
                                       (Some ''my-app'') (Some ''REDUX'')))
   \<and> announced (trace (createProjectB (world_of fs_plain clone_ok False)
                         (Some ''my-app'') (Some ''REDUX''))) = [''redux'']
   \<and> clone_calls (trace (createProjectB (world_of fs_plain clone_ok False)
                           (Some ''my-app'') (Some ''REDUX'')))
       = [(''fraanlol/template-react-redux'', ''/work/my-app'')]"
  by code_simp

theorem option_overrides_prompt_witness:
  "''vue'' \<notin> set AVAILABLE_TEMPLATES
   \<and> Ask ''template'' \<in> set (trace (createProjectB ((world_of fs_plain clone_ok False)\<lparr>picked := ''redux''\<rparr>)
                                       (Some ''my-app'') (Some ''vue'')))
   \<and> announced (trace (createProjectB ((world_of fs_plain clone_ok False)\<lparr>picked := ''redux''\<rparr>)
                         (Some ''my-app'') (Some ''vue''))) = [''base'']
   \<and> announced (trace (createProjectA ((world_of fs_plain clone_ok False)\<lparr>picked := ''redux''\<rparr>)
                         (Some ''my-app'') (Some ''vue''))) = [''base'']"
proof -
  let ?w = "world_of fs_plain clone_ok False"
  have h1: "''vue'' \<noteq> []" by simp
  have h2: "''vue'' \<notin> set AVAILABLE_TEMPLATES" by code_simp
  have h3: "prompt_ok (promptB ?w (Some ''my-app'') (Some ''vue''))" by code_simp
  have h4: "prompt_ok (promptA ?w (Some ''my-app'') (Some ''vue''))" by code_simp
  have e1: "validateTemplateB (JStr ''vue'') = ''base''" by code_simp
  have e2: "fst (validateTemplateA (disk ?w) (dirname ?w) (JStr ''vue'')) = ''base''" by code_simp
  from option_overrides_prompt[OF h1 h2, of ?w "Some ''my-app''" "''redux''"] h2 h3 h4 e1 e2
  show ?thesis by simp
qed

text \<open>
  Claim C5, as amended. A project name that matches \<open>^[a-zA-Z0-9_-]+$\<close> and has at
  most 50 characters passes validation (both variants). Variant B validates the input
  with the surrounding white space removed: it passes exactly when the trimmed input
  matches the pattern and has at most 50 characters, and otherwise answers one of its
  three messages.
\<close>

theorem project_name_validation:
  "(project_re input \<and> length input \<le> 50 \<longrightarrow> validateB input = Valid \<and> validateA input = Valid)
   \<and> (validateB input = Valid) = (project_re (trim input) \<and> length (trim input) \<le> 50)
   \<and> validateB input \<in>
       {Valid,
        Invalid ''Project name is required'',
        Invalid ''Project name can only contain letters, numbers, hyphens, and underscores'',
        Invalid ''Project name must be 50 characters or less''}"
proof -
  have 1: "project_re input \<and> length input \<le> 50 \<longrightarrow> validateB input = Valid \<and> validateA input = Valid"
    using project_re_trim[of input]
    by (auto simp: validateB_def validateA_def Let_def project_re_def)
  have 2: "(validateB input = Valid) = (project_re (trim input) \<and> length (trim input) \<le> 50)"
    by (auto simp: validateB_def Let_def project_re_def trim_def)
  have 3: "validateB input \<in>
       {Valid,
        Invalid ''Project name is required'',
        Invalid ''Project name can only contain letters, numbers, hyphens, and underscores'',
        Invalid ''Project name must be 50 characters or less''}"
    by (simp add: validateB_def Let_def)
  from 1 2 3 show ?thesis by blast
qed

text \<open>The input \<open>" my-app "\<close> contains spaces, does not match the pattern, and passes
  the validation of variant B.\<close>

theorem project_name_validation_counterexample:
  "\<not> project_re '' my-app '' \<and> validateB '' my-app '' = Valid"
  by code_simp

theorem project_name_validation_witness:
  "project_re ''my-app_1'' \<and> length ''my-app_1'' \<le> 50
   \<and> validateB ''my-app_1'' = Valid \<and> validateA ''my-app_1'' = Valid
   \<and> validateB ''my app'' \<noteq> Valid"
proof -
  have h: "project_re ''my-app_1'' \<and> length ''my-app_1'' \<le> 50" by code_simp
  have n: "\<not> project_re (trim ''my app'')" by code_simp
  from h n project_name_validation[of "''my-app_1''"] project_name_validation[of "''my app''"]
  show ?thesis by blast
qed

end
